theory Spec2Isabelle
  imports Complex_Main "HOL-Library.Sublist"
begin

section \<open>Numbers and errors\<close>

text \<open>
  The Python sources compute with \<open>float\<close> and \<open>int\<close>. A float is modelled as the
  rational number it denotes, so every comparison, also of a float with an int, is the one
  the interpreter makes. The result of a float operation is the exact result rounded to the
  nearest binary64 number, a tie going to the even significand; \<open>fl\<close> is that rounding.
  Overflow to infinity is not modelled: it starts at \<open>2 ^ 1024\<close>, which no sum of scores
  of a list that fits in memory reaches.
\<close>

text \<open>\<open>int.bit_length\<close> of a number that is not negative.\<close>

function bit_length :: "int \<Rightarrow> int" where
  "bit_length n = (if n \<le> 0 then 0 else 1 + bit_length (n div 2))"
  by pat_completeness auto
termination
  by (relation "measure nat") auto

declare bit_length.simps [simp del]

definition pow2 :: "int \<Rightarrow> rat" where
  "pow2 k = (if 0 \<le> k then 2 ^ nat k else 1 / 2 ^ nat (- k))"

definition round_half_even :: "rat \<Rightarrow> int" where
  "round_half_even y =
     (let f = \<lfloor>y\<rfloor>; r = y - of_int f
      in if r < 1 / 2 then f else if 1 / 2 < r then f + 1 else if even f then f else f + 1)"

text \<open>
  For \<open>x\<close> with \<open>2 ^ e \<le> |x| < 2 ^ (e + 1)\<close> the binary64 numbers around \<open>x\<close> are the
  multiples of \<open>2 ^ (e - 52)\<close>, and of \<open>2 ^ (- 1074)\<close> below the normal range.
\<close>

definition fl :: "rat \<Rightarrow> rat" where
  "fl x =
     (if x = 0 then 0
      else
        (let a = \<bar>x\<bar>;
             e0 = bit_length (fst (quotient_of a)) - bit_length (snd (quotient_of a));
             e = (if pow2 e0 \<le> a then e0 else e0 - 1);
             u = pow2 (max e (- 1022) - 52)
         in sgn x * of_int (round_half_even (a / u)) * u))"

text \<open>Float multiplication, addition and division.\<close>

definition fmul :: "rat \<Rightarrow> rat \<Rightarrow> rat" where
  "fmul a b = fl (a * b)"

definition fadd :: "rat \<Rightarrow> rat \<Rightarrow> rat" where
  "fadd a b = fl (a + b)"

definition fdiv :: "rat \<Rightarrow> rat \<Rightarrow> rat" where
  "fdiv a b = fl (a / b)"

text \<open>
  Python's \<open>round(x, n)\<close> of a float: the decimal number with \<open>n\<close> places nearest to the
  exact value of \<open>x\<close>, a tie going to the even last digit, read back as a float.
\<close>

definition py_round :: "rat \<Rightarrow> nat \<Rightarrow> rat" where
  "py_round x n = fl (of_int (round_half_even (x * 10 ^ n)) / 10 ^ n)"

text \<open>\<open>max(xs)\<close> of a non-empty list; Python raises \<open>ValueError\<close> on an empty one.\<close>

fun py_max :: "rat list \<Rightarrow> rat option" where
  "py_max [] = None"
| "py_max (x # xs) = Some (fold max xs x)"

text \<open>The exceptions that the modelled functions raise.\<close>

datatype py_error = AttributeError | KeyError | MergeError | ValueError

section \<open>Data model: \<open>models/patient.py\<close>\<close>

text \<open>
  The three enumerations. \<open>Lesion\<close> and \<open>PatientData\<close> both set
  \<open>use_enum_values = True\<close> in their \<open>Config\<close>, so a validated object holds in the
  fields \<open>vessel\<close>, \<open>location\<close> and \<open>gender\<close> the plain string that is the value of the
  member, not the member. The constructors below stand for those strings.
\<close>

datatype VesselType = LAD | LCX | RCA | LM | OM | D | PLV | PDA

datatype StenosisLocation = PROXIMAL | MID | DISTAL

datatype Gender = MALE | FEMALE

text \<open>
  The calculators read \<open>.value\<close> on these fields. A \<open>str\<close> has no attribute \<open>value\<close>:
  the read raises \<open>AttributeError\<close> whatever the string is. Looking a vessel string up in
  a dictionary whose keys are \<open>VesselType\<close> members does find the entry, since a member
  of a \<open>str\<close> enumeration equals its value and, name and value being the same text for
  every vessel, hashes like it.
\<close>

definition value_of :: "'a \<Rightarrow> py_error + 'a" where
  "value_of x = Inl AttributeError"

text \<open>Class \<open>Lesion\<close> (the fields the calculators read).\<close>

record Lesion =
  vessel :: VesselType
  segment_id :: "int option"
  stenosis_percent :: rat
  location :: StenosisLocation
  length_mm :: "rat option"
  is_bifurcation :: bool
  is_ostial :: bool
  is_calcified :: bool
  is_tortuous :: bool
  is_cto :: bool
  thrombus_present :: bool

text \<open>Class \<open>PatientData\<close>.\<close>

record PatientData =
  age :: int
  gender :: Gender
  diabetes :: bool
  hypertension :: bool
  creatinine_mg_dl :: "rat option"
  ejection_fraction :: "rat option"
  lesions :: "Lesion list"

text \<open>
  \<open>single_sheet_processor.py\<close> passes lesions as dictionaries. The keys \<open>vessel\<close> and
  \<open>stenosis_percent\<close> are read with \<open>lesion[...]\<close>; every other key is read with
  \<open>lesion.get(key, default)\<close>, so a missing key is \<open>None\<close> (or \<open>False\<close> for a flag)
  here and the default is applied where the code applies it.
\<close>

record LesionDict =
  d_vessel :: string
  d_stenosis_percent :: rat
  d_location :: "string option"
  d_length_mm :: "rat option"
  d_is_bifurcation :: bool
  d_is_ostial :: bool
  d_is_calcified :: bool
  d_is_tortuous :: bool
  d_is_cto :: bool
  d_thrombus_present :: bool

text \<open>
  A dictionary that is iterated is an association list in insertion order.
  \<open>dict_keys\<close> lists the keys in the order of their first insertion; \<open>dict_add\<close> is
  \<open>d[k] = 0\<close> for a new key followed by \<open>d[k] += x\<close>, the sum being a float sum.
\<close>

fun dict_keys :: "'k list \<Rightarrow> 'k list" where
  "dict_keys [] = []"
| "dict_keys (k # ks) = k # filter (\<lambda>k'. k' \<noteq> k) (dict_keys ks)"

fun dict_add :: "('k \<times> rat) list \<Rightarrow> 'k \<Rightarrow> rat \<Rightarrow> ('k \<times> rat) list" where
  "dict_add [] k x = [(k, fadd 0 x)]"
| "dict_add ((k', y) # rest) k x =
     (if k' = k then (k', fadd y x) # rest else (k', y) # dict_add rest k x)"

section \<open>CAD-RADS\<close>

subsection \<open>\<open>calculators/cad_rads_calculator.py\<close>\<close>

text \<open>\<open>CADRADS_GRADES\<close>: grade and its \<open>range\<close> entry, in the dictionary's order.\<close>

definition CADRADS_GRADES :: "(int \<times> int \<times> int) list" where
  "CADRADS_GRADES =
     [(0, 0, 0), (1, 1, 24), (2, 25, 49), (3, 50, 69), (4, 70, 99), (5, 100, 100)]"

text \<open>The loop of \<open>_stenosis_to_grade\<close> over a table; falling through returns 0.\<close>

fun stenosis_to_grade_loop :: "(int \<times> int \<times> int) list \<Rightarrow> rat \<Rightarrow> int" where
  "stenosis_to_grade_loop [] s = 0"
| "stenosis_to_grade_loop ((grade, min_s, max_s) # rest) s =
     (if of_int min_s \<le> s \<and> s \<le> of_int max_s then grade
      else stenosis_to_grade_loop rest s)"

definition stenosis_to_grade :: "rat \<Rightarrow> int" where
  "stenosis_to_grade s = stenosis_to_grade_loop CADRADS_GRADES s"

definition VESSEL_IMPORTANCE :: "VesselType \<Rightarrow> rat" where
  "VESSEL_IMPORTANCE v =
     (case v of LM \<Rightarrow> 5 | LAD \<Rightarrow> 4 | LCX \<Rightarrow> 3 | RCA \<Rightarrow> 3
              | OM \<Rightarrow> 2 | D \<Rightarrow> 2 | PDA \<Rightarrow> 2 | PLV \<Rightarrow> 1)"

text \<open>
  The first loop of \<open>_calculate_vessel_grades\<close>, which groups the lesions by
  \<open>lesion.vessel.value\<close>: the read of \<open>.value\<close> raises at the first lesion.
\<close>

fun dict_append :: "('k \<times> 'v list) list \<Rightarrow> 'k \<Rightarrow> 'v \<Rightarrow> ('k \<times> 'v list) list" where
  "dict_append [] k x = [(k, [x])]"
| "dict_append ((k', xs) # rest) k x =
     (if k' = k then (k', xs @ [x]) # rest else (k', xs) # dict_append rest k x)"

fun vessel_lesions_loop ::
  "Lesion list \<Rightarrow> (VesselType \<times> Lesion list) list
     \<Rightarrow> py_error + (VesselType \<times> Lesion list) list" where
  "vessel_lesions_loop [] vessel_lesions = Inr vessel_lesions"
| "vessel_lesions_loop (lesion # rest) vessel_lesions =
     (case value_of (vessel lesion) of
        Inl e \<Rightarrow> Inl e
      | Inr v \<Rightarrow> vessel_lesions_loop rest (dict_append vessel_lesions v lesion))"

text \<open>The second loop: each vessel is graded by its largest stenosis.\<close>

fun vessel_grades_loop ::
  "(VesselType \<times> Lesion list) list \<Rightarrow> py_error + (VesselType \<times> int) list" where
  "vessel_grades_loop [] = Inr []"
| "vessel_grades_loop ((v, lesions_list) # rest) =
     (case py_max (map stenosis_percent lesions_list) of
        None \<Rightarrow> Inl ValueError
      | Some m \<Rightarrow>
          (case vessel_grades_loop rest of
             Inl e \<Rightarrow> Inl e
           | Inr grades \<Rightarrow> Inr ((v, stenosis_to_grade m) # grades)))"

definition calculate_vessel_grades :: "Lesion list \<Rightarrow> py_error + (VesselType \<times> int) list" where
  "calculate_vessel_grades ls =
     (case vessel_lesions_loop ls [] of
        Inl e \<Rightarrow> Inl e
      | Inr vessel_lesions \<Rightarrow> vessel_grades_loop vessel_lesions)"

text \<open>
  \<open>max(d, key=d.get)\<close>: the first key, in insertion order, whose value is largest.
\<close>

fun argmax_first :: "('k \<times> rat) list \<Rightarrow> 'k option" where
  "argmax_first [] = None"
| "argmax_first ((k, x) # rest) =
     Some (fst (fold (\<lambda>(k', y) (bk, bx). if bx < y then (k', y) else (bk, bx)) rest (k, x)))"

text \<open>
  \<open>_find_dominant_vessel\<close>: the loop adds \<open>stenosis_percent / 100 * importance\<close> to the
  score of the lesion's vessel; it reads the vessel itself, not its \<open>.value\<close>.
\<close>

fun vessel_scores_loop :: "Lesion list \<Rightarrow> (VesselType \<times> rat) list \<Rightarrow> (VesselType \<times> rat) list" where
  "vessel_scores_loop [] vessel_scores = vessel_scores"
| "vessel_scores_loop (lesion # rest) vessel_scores =
     (let stenosis_score = fdiv (stenosis_percent lesion) 100;
          vessel_score = fmul stenosis_score (VESSEL_IMPORTANCE (vessel lesion))
      in vessel_scores_loop rest (dict_add vessel_scores (vessel lesion) vessel_score))"

definition find_dominant_vessel :: "Lesion list \<Rightarrow> VesselType option" where
  "find_dominant_vessel ls =
     (if ls = [] then None else argmax_first (vessel_scores_loop ls []))"

text \<open>
  The result dictionary of \<open>CadRadsCalculator.calculate\<close>. The recommendation and
  follow-up texts are static tables keyed by the grade; the record keeps the key.
\<close>

record CadRadsResult =
  overall_grade :: int
  max_stenosis :: rat
  vessel_grades :: "(VesselType \<times> int) list"
  dominant_vessel :: "VesselType option"
  recommendation :: int
  follow_up :: int

text \<open>
  \<open>CadRadsCalculator.calculate\<close>: the fixed result for an empty lesion list; otherwise
  the vessel grades (which raise), the largest grade, the largest stenosis and the dominant
  vessel, of which \<open>.value\<close> is read when there is one.
\<close>

definition CadRadsCalculator_calculate :: "PatientData \<Rightarrow> py_error + CadRadsResult" where
  "CadRadsCalculator_calculate p =
     (if lesions p = [] then
        Inr \<lparr>overall_grade = 0, max_stenosis = 0, vessel_grades = [], dominant_vessel = None,
             recommendation = 0, follow_up = 0\<rparr>
      else
        (case calculate_vessel_grades (lesions p) of
           Inl e \<Rightarrow> Inl e
         | Inr vg \<Rightarrow>
             (let og = (case vg of [] \<Rightarrow> 0 | g # gs \<Rightarrow> fold max (map snd gs) (snd g))
              in case py_max (map stenosis_percent (lesions p)) of
                   None \<Rightarrow> Inl ValueError
                 | Some ms \<Rightarrow>
                     (case find_dominant_vessel (lesions p) of
                        None \<Rightarrow>
                          Inr \<lparr>overall_grade = og, max_stenosis = ms, vessel_grades = vg,
                               dominant_vessel = None, recommendation = og, follow_up = og\<rparr>
                      | Some dv \<Rightarrow>
                          (case value_of dv of
                             Inl e \<Rightarrow> Inl e
                           | Inr d \<Rightarrow>
                               Inr \<lparr>overall_grade = og, max_stenosis = ms,
                                    vessel_grades = vg, dominant_vessel = Some d,
                                    recommendation = og, follow_up = og\<rparr>)))))"

subsection \<open>\<open>single_sheet_processor.py\<close>: \<open>calculate_cad_rads_grade\<close>\<close>

text \<open>The grade chain in the loop body (lines 121-133).\<close>

definition cad_rads_lesion_grade :: "rat \<Rightarrow> int" where
  "cad_rads_lesion_grade stenosis =
     (if stenosis = 0 then 0
      else if stenosis \<le> 24 then 1
      else if stenosis \<le> 49 then 2
      else if stenosis \<le> 69 then 3
      else if stenosis \<le> 99 then 4
      else 5)"

text \<open>The loop state: \<open>max_grade\<close>, \<open>max_stenosis\<close>, \<open>vessel_grades\<close>.\<close>

fun dict_update_max :: "(string \<times> int) list \<Rightarrow> string \<Rightarrow> int \<Rightarrow> (string \<times> int) list" where
  "dict_update_max [] v g = [(v, g)]"
| "dict_update_max ((k, x) # rest) v g =
     (if k = v then (k, max x g) # rest else (k, x) # dict_update_max rest v g)"

definition cad_rads_step ::
  "LesionDict \<Rightarrow> int \<times> rat \<times> (string \<times> int) list \<Rightarrow> int \<times> rat \<times> (string \<times> int) list" where
  "cad_rads_step l st =
     (case st of (max_grade, max_sten, vg) \<Rightarrow>
        (let grade = cad_rads_lesion_grade (d_stenosis_percent l)
         in (max max_grade grade, max max_sten (d_stenosis_percent l),
             dict_update_max vg (d_vessel l) grade)))"

definition calculate_cad_rads_grade :: "LesionDict list \<Rightarrow> int \<times> rat \<times> (string \<times> int) list" where
  "calculate_cad_rads_grade ls = fold cad_rads_step ls (0, 0, [])"

section \<open>Gensini: stenosis score\<close>

text \<open>\<open>STENOSIS_SCORES\<close>, the same table in both calculators, in dictionary order.\<close>

definition STENOSIS_SCORES :: "(int \<times> int \<times> int) list" where
  "STENOSIS_SCORES =
     [(0, 25, 1), (25, 50, 2), (50, 75, 4), (75, 90, 8), (90, 99, 16), (99, 100, 32)]"

fun get_stenosis_score_loop :: "(int \<times> int \<times> int) list \<Rightarrow> rat \<Rightarrow> int" where
  "get_stenosis_score_loop [] s = 0"
| "get_stenosis_score_loop ((min_s, max_s, score) # rest) s =
     (if of_int min_s < s \<and> s \<le> of_int max_s then score
      else get_stenosis_score_loop rest s)"

text \<open>
  \<open>GensiniCalculator._get_stenosis_score\<close>. The loop of \<open>calculate_gensini_score\<close> in
  \<open>single_sheet_processor.py\<close> (lines 196-200) starts from 0 and breaks at the first
  interval that matches: the same function.
\<close>

definition get_stenosis_score :: "rat \<Rightarrow> int" where
  "get_stenosis_score s = get_stenosis_score_loop STENOSIS_SCORES s"

definition gensini_lesion_stenosis_score :: "rat \<Rightarrow> int" where
  "gensini_lesion_stenosis_score stenosis = get_stenosis_score_loop STENOSIS_SCORES stenosis"

section \<open>SYNTAX\<close>

subsection \<open>\<open>calculators/syntax_calculator.py\<close>\<close>

text \<open>\<open>VESSEL_WEIGHTS\<close>: segment id to weight, in the dictionary's order.\<close>

definition VESSEL_WEIGHTS :: "(int \<times> rat) list" where
  "VESSEL_WEIGHTS =
     [(5, 5.0),
      (6, 3.5), (7, 2.5), (8, 1.0), (9, 1.0), (10, 0.5),
      (11, 3.5), (12, 1.0), (13, 1.0), (14, 1.0), (15, 0.5),
      (1, 3.5), (2, 1.0), (3, 1.0), (4, 1.0), (16, 0.5)]"

text \<open>
  The part of \<open>_get_segment_id\<close> after the first \<open>return\<close>. \<open>vessel_mapping\<close> holds
  an int for LM and a dictionary for LAD, LCX and RCA; for these three the code reads
  \<open>lesion.location.value\<close>, which raises. Every other vessel has no entry and takes
  \<open>None or 1\<close>.
\<close>

definition infer_segment_id :: "Lesion \<Rightarrow> py_error + int" where
  "infer_segment_id lesion =
     (case vessel lesion of
        LM \<Rightarrow> Inr 5
      | LAD \<Rightarrow>
          (case value_of (location lesion) of
             Inl e \<Rightarrow> Inl e
           | Inr loc \<Rightarrow> Inr (case loc of PROXIMAL \<Rightarrow> 6 | MID \<Rightarrow> 7 | DISTAL \<Rightarrow> 8))
      | LCX \<Rightarrow>
          (case value_of (location lesion) of
             Inl e \<Rightarrow> Inl e
           | Inr loc \<Rightarrow> Inr (case loc of PROXIMAL \<Rightarrow> 11 | MID \<Rightarrow> 13 | DISTAL \<Rightarrow> 14))
      | RCA \<Rightarrow>
          (case value_of (location lesion) of
             Inl e \<Rightarrow> Inl e
           | Inr loc \<Rightarrow> Inr (case loc of PROXIMAL \<Rightarrow> 1 | MID \<Rightarrow> 2 | DISTAL \<Rightarrow> 3))
      | OM \<Rightarrow> Inr 1 | D \<Rightarrow> Inr 1 | PLV \<Rightarrow> Inr 1 | PDA \<Rightarrow> Inr 1)"

text \<open>\<open>_get_segment_id\<close>. \<open>if lesion.segment_id\<close> is false for \<open>None\<close> and for 0.\<close>

definition get_segment_id :: "Lesion \<Rightarrow> py_error + int" where
  "get_segment_id lesion =
     (case segment_id lesion of
        None \<Rightarrow> infer_segment_id lesion
      | Some i \<Rightarrow> (if i = 0 then infer_segment_id lesion else Inr i))"

text \<open>The local \<open>weight\<close> of \<open>_get_base_score\<close>: \<open>VESSEL_WEIGHTS.get(segment_id, 1.0)\<close>.\<close>

definition get_base_weight :: "Lesion \<Rightarrow> py_error + rat" where
  "get_base_weight lesion =
     (case get_segment_id lesion of
        Inl e \<Rightarrow> Inl e
      | Inr sid \<Rightarrow> Inr (case map_of VESSEL_WEIGHTS sid of Some w \<Rightarrow> w | None \<Rightarrow> 1.0))"

definition stenosis_factor :: "rat \<Rightarrow> rat" where
  "stenosis_factor s = (if 99 \<le> s then 5.0 else if 90 \<le> s then 2.0 else if 70 \<le> s then 1.5 else 1.0)"

definition get_base_score :: "Lesion \<Rightarrow> py_error + rat" where
  "get_base_score lesion =
     (case get_base_weight lesion of
        Inl e \<Rightarrow> Inl e
      | Inr weight \<Rightarrow> Inr (fmul weight (stenosis_factor (stenosis_percent lesion))))"

text \<open>
  \<open>_get_complexity_score\<close>, a chain of \<open>+=\<close> on a float that starts at 0.0.
  \<open>lesion.length_mm and lesion.length_mm > 20\<close> is false for \<open>None\<close> and for 0.
\<close>

definition add_if :: "bool \<Rightarrow> rat \<Rightarrow> rat \<Rightarrow> rat" where
  "add_if b x acc = (if b then fadd acc x else acc)"

definition get_complexity_score :: "Lesion \<Rightarrow> rat" where
  "get_complexity_score lesion =
     add_if (case length_mm lesion of Some len \<Rightarrow> 20 < len | None \<Rightarrow> False) 1
       (add_if (is_tortuous lesion) 1
         (add_if (is_cto lesion) 5
           (add_if (thrombus_present lesion) 1
             (add_if (is_calcified lesion) 2
               (add_if (is_ostial lesion) 0.5
                 (add_if (is_bifurcation lesion) 1 0.0))))))"

text \<open>
  The loop of \<open>_calculate_anatomical_score\<close>, the accumulator \<open>total_score\<close> as the
  second argument; the function returns the accumulator rounded to one decimal.
\<close>

fun anatomical_score_loop :: "Lesion list \<Rightarrow> rat \<Rightarrow> py_error + rat" where
  "anatomical_score_loop [] total_score = Inr total_score"
| "anatomical_score_loop (lesion # rest) total_score =
     (if stenosis_percent lesion < 50 then anatomical_score_loop rest total_score
      else
        (case get_base_score lesion of
           Inl e \<Rightarrow> Inl e
         | Inr base_score \<Rightarrow>
             (let complexity_score = get_complexity_score lesion;
                  lesion_score = fadd base_score complexity_score
              in anatomical_score_loop rest (fadd total_score lesion_score))))"

definition calculate_anatomical_score :: "Lesion list \<Rightarrow> py_error + rat" where
  "calculate_anatomical_score ls =
     (case anatomical_score_loop ls 0.0 of
        Inl e \<Rightarrow> Inl e
      | Inr total_score \<Rightarrow> Inr (py_round total_score 1))"

text \<open>
  \<open>_calculate_clinical_score\<close>. After the age it reads \<open>patient_data.gender.value\<close>,
  which raises. The optional measurements are tested for truth first, so \<open>None\<close> and 0
  add nothing.
\<close>

definition calculate_clinical_score :: "PatientData \<Rightarrow> py_error + rat" where
  "calculate_clinical_score p =
     (let by_age =
            (if 80 \<le> age p then fadd 0.0 10 else if 70 \<le> age p then fadd 0.0 5
             else if 60 \<le> age p then fadd 0.0 2 else 0.0)
      in case value_of (gender p) of
           Inl e \<Rightarrow> Inl e
         | Inr g \<Rightarrow>
             Inr (add_if (case ejection_fraction p of Some ef \<Rightarrow> ef \<noteq> 0 \<and> ef < 50 | None \<Rightarrow> False) 3
                   (add_if (case creatinine_mg_dl p of Some c \<Rightarrow> 2.0 < c | None \<Rightarrow> False) 4
                     (add_if (diabetes p) 3
                       (add_if (g = FEMALE) 2 by_age)))))"

definition calculate_syntax_ii_score :: "PatientData \<Rightarrow> rat \<Rightarrow> py_error + rat" where
  "calculate_syntax_ii_score p anatomical =
     (case calculate_clinical_score p of
        Inl e \<Rightarrow> Inl e
      | Inr clinical \<Rightarrow>
          Inr (py_round (fmul anatomical (fadd 1 (fdiv clinical 100))) 1))"

definition get_risk_category :: "rat \<Rightarrow> string" where
  "get_risk_category score =
     (if score \<le> 22 then ''low'' else if score \<le> 32 then ''intermediate'' else ''high'')"

record SyntaxResult =
  total_score :: rat
  anatomical_score :: rat
  clinical_score :: rat
  syntax_ii_score :: rat
  risk_category :: string

text \<open>
  \<open>SyntaxCalculator.calculate\<close>: the fixed result for an empty lesion list, otherwise the
  four steps in the order of the code, the first exception ending the call.
\<close>

definition SyntaxCalculator_calculate :: "PatientData \<Rightarrow> py_error + SyntaxResult" where
  "SyntaxCalculator_calculate p =
     (if lesions p = [] then
        Inr \<lparr>total_score = 0.0, anatomical_score = 0.0, clinical_score = 0.0,
             syntax_ii_score = 0.0, risk_category = ''low''\<rparr>
      else
        (case calculate_anatomical_score (lesions p) of
           Inl e \<Rightarrow> Inl e
         | Inr a \<Rightarrow>
             (case calculate_clinical_score p of
                Inl e \<Rightarrow> Inl e
              | Inr c \<Rightarrow>
                  (case calculate_syntax_ii_score p a of
                     Inl e \<Rightarrow> Inl e
                   | Inr s2 \<Rightarrow>
                       Inr \<lparr>total_score = a, anatomical_score = a, clinical_score = c,
                            syntax_ii_score = s2, risk_category = get_risk_category a\<rparr>))))"

subsection \<open>\<open>single_sheet_processor.py\<close>: \<open>calculate_syntax_score\<close>\<close>

text \<open>\<open>self.vessel_weights\<close> of \<open>CoronaryScoreCalculator\<close>.\<close>

definition vessel_weights :: "(string \<times> rat) list" where
  "vessel_weights =
     [(''LM'', 5.0), (''LAD'', 3.5), (''LCX'', 3.5), (''RCA'', 3.5),
      (''OM'', 1.0), (''D'', 1.0), (''PDA'', 1.0), (''PLV'', 0.5)]"

text \<open>
  \<open>base_weight\<close> after the location adjustment (lines 38-47):
  \<open>vessel_weights.get(vessel, 1.0)\<close>, times the float 0.7 for \<open>mid\<close>, times the float
  0.4 for \<open>distal\<close>; a missing location is \<open>proximal\<close>.
\<close>

definition syntax_base_weight :: "LesionDict \<Rightarrow> rat" where
  "syntax_base_weight lesion =
     (let base_weight = (case map_of vessel_weights (d_vessel lesion) of Some w \<Rightarrow> w | None \<Rightarrow> 1.0);
          loc = (case d_location lesion of Some x \<Rightarrow> x | None \<Rightarrow> ''proximal'')
      in if loc = ''mid'' then fmul base_weight (fl 0.7)
         else if loc = ''distal'' then fmul base_weight (fl 0.4)
         else base_weight)"

definition syntax_base_score :: "LesionDict \<Rightarrow> rat" where
  "syntax_base_score lesion =
     fmul (syntax_base_weight lesion) (stenosis_factor (d_stenosis_percent lesion))"

text \<open>
  \<open>complexity_score\<close> (lines 63-80) starts as the int 0; each \<open>+=\<close> adds a float.
\<close>

definition syntax_complexity_score :: "LesionDict \<Rightarrow> rat" where
  "syntax_complexity_score lesion =
     add_if (20 < (case d_length_mm lesion of Some len \<Rightarrow> len | None \<Rightarrow> 0)) 1.0
       (add_if (d_thrombus_present lesion) 1.0
         (add_if (d_is_tortuous lesion) 1.0
           (add_if (d_is_ostial lesion) 0.5
             (add_if (d_is_cto lesion) 5.0
               (add_if (d_is_calcified lesion) 2.0
                 (add_if (d_is_bifurcation lesion) 1.0 0))))))"

text \<open>The local \<open>lesion_score\<close> of \<open>calculate_syntax_score\<close>.\<close>

definition syntax_lesion_score :: "LesionDict \<Rightarrow> rat" where
  "syntax_lesion_score lesion = fadd (syntax_base_score lesion) (syntax_complexity_score lesion)"

text \<open>An entry of \<open>lesion_details\<close>.\<close>

record SyntaxLesionDetail =
  detail_vessel :: string
  detail_stenosis_percent :: rat
  detail_base_score :: rat
  detail_complexity_score :: rat
  detail_total_contribution :: rat

text \<open>The loop of \<open>calculate_syntax_score\<close>; the state is \<open>total_score\<close> and \<open>lesion_details\<close>.\<close>

fun syntax_score_loop ::
  "LesionDict list \<Rightarrow> rat \<times> SyntaxLesionDetail list \<Rightarrow> rat \<times> SyntaxLesionDetail list" where
  "syntax_score_loop [] st = st"
| "syntax_score_loop (lesion # rest) (tot, details) =
     (if d_stenosis_percent lesion < 50 then syntax_score_loop rest (tot, details)
      else
        (let base_score = syntax_base_score lesion;
             complexity_score = syntax_complexity_score lesion;
             lesion_score = syntax_lesion_score lesion
         in syntax_score_loop rest
              (fadd tot lesion_score,
               details @ [\<lparr>detail_vessel = d_vessel lesion,
                            detail_stenosis_percent = d_stenosis_percent lesion,
                            detail_base_score = py_round base_score 2,
                            detail_complexity_score = py_round complexity_score 2,
                            detail_total_contribution = py_round lesion_score 2\<rparr>])))"

text \<open>
  The result of \<open>calculate_syntax_score\<close>: the rounded total, the risk category (taken from
  the total before rounding) and the lesion details. The risk description is a fixed text
  per category.
\<close>

definition calculate_syntax_score :: "LesionDict list \<Rightarrow> rat \<times> string \<times> SyntaxLesionDetail list" where
  "calculate_syntax_score ls =
     (case syntax_score_loop ls (0, []) of
        (tot, details) \<Rightarrow> (py_round tot 1, get_risk_category tot, details))"

section \<open>Gensini: vessel weight and total\<close>

subsection \<open>\<open>calculators/gensini_calculator.py\<close>\<close>

text \<open>\<open>GENSINI_WEIGHTS\<close> of \<open>utils/vessel_segments.py\<close>: segment id to weight.\<close>

definition GENSINI_WEIGHTS :: "(int \<times> rat) list" where
  "GENSINI_WEIGHTS =
     [(1, 1.0), (2, 1.0), (3, 1.0), (4, 1.0),
      (5, 5.0),
      (6, 2.5), (7, 1.5), (8, 1.0), (9, 1.0), (10, 0.5),
      (11, 2.5), (12, 1.0), (13, 1.0), (14, 1.0), (15, 0.5),
      (16, 0.5)]"

text \<open>\<open>default_weights\<close> of \<open>_get_vessel_weight\<close>.\<close>

definition default_weights :: "VesselType \<Rightarrow> rat" where
  "default_weights v =
     (case v of LM \<Rightarrow> 5.0 | LAD \<Rightarrow> 2.5 | LCX \<Rightarrow> 2.5 | RCA \<Rightarrow> 1.0
              | OM \<Rightarrow> 1.0 | D \<Rightarrow> 1.0 | PDA \<Rightarrow> 1.0 | PLV \<Rightarrow> 0.5)"

text \<open>
  The branches on the location string (lines 124-138), which the code reaches only with
  the result of \<open>lesion.location.value\<close>.
\<close>

definition weight_at_location :: "VesselType \<Rightarrow> StenosisLocation \<Rightarrow> rat \<Rightarrow> rat" where
  "weight_at_location vessel_type loc base_weight =
     (case loc of
        PROXIMAL \<Rightarrow>
          (if vessel_type = LAD \<or> vessel_type = LCX then 2.5
           else if vessel_type = RCA then 1.0 else base_weight)
      | MID \<Rightarrow>
          (if vessel_type = LAD \<or> vessel_type = LCX then 1.5
           else if vessel_type = RCA then 1.0 else base_weight)
      | DISTAL \<Rightarrow> 1.0)"

text \<open>
  \<open>_get_vessel_weight\<close>. A segment id that is not \<open>None\<close>, not 0 and a key of the table
  gives the table's weight. Otherwise \<open>lesion.location\<close>, a non-empty string, is true and
  the code reads its \<open>.value\<close>.
\<close>

definition get_vessel_weight :: "Lesion \<Rightarrow> py_error + rat" where
  "get_vessel_weight lesion =
     (case (case segment_id lesion of
              None \<Rightarrow> None
            | Some i \<Rightarrow> (if i = 0 then None else map_of GENSINI_WEIGHTS i)) of
        Some w \<Rightarrow> Inr w
      | None \<Rightarrow>
          (let vessel_type = vessel lesion;
               base_weight = default_weights vessel_type
           in case value_of (location lesion) of
                Inl e \<Rightarrow> Inl e
              | Inr loc \<Rightarrow> Inr (weight_at_location vessel_type loc base_weight)))"

definition get_severity_grade :: "rat \<Rightarrow> string" where
  "get_severity_grade tot =
     (if tot = 0 then ''normal''
      else if tot \<le> 20 then ''mild''
      else if tot \<le> 40 then ''moderate''
      else if tot \<le> 80 then ''severe''
      else ''critical'')"

text \<open>An entry of \<open>lesion_contributions\<close>.\<close>

record GensiniContribution =
  lesion_index :: nat
  contribution_vessel :: VesselType
  contribution_stenosis_percent :: rat
  contribution_stenosis_score :: int
  contribution_vessel_weight :: rat
  contribution :: rat

text \<open>
  The loop of \<open>GensiniCalculator.calculate\<close>; the state is the index, \<open>total_score\<close>,
  \<open>vessel_scores\<close> and \<open>lesion_contributions\<close>. After the weight, the body reads
  \<open>lesion.vessel.value\<close> (line 66).
\<close>

fun gensini_loop ::
  "Lesion list \<Rightarrow> nat \<times> rat \<times> (VesselType \<times> rat) list \<times> GensiniContribution list
     \<Rightarrow> py_error + rat \<times> (VesselType \<times> rat) list \<times> GensiniContribution list" where
  "gensini_loop [] (i, tot, vs, cs) = Inr (tot, vs, cs)"
| "gensini_loop (lesion # rest) (i, tot, vs, cs) =
     (let sscore = get_stenosis_score (stenosis_percent lesion)
      in case get_vessel_weight lesion of
           Inl e \<Rightarrow> Inl e
         | Inr w \<Rightarrow>
             (let lesion_score = fmul (of_int sscore) w
              in case value_of (vessel lesion) of
                   Inl e \<Rightarrow> Inl e
                 | Inr vessel_key \<Rightarrow>
                     gensini_loop rest
                       (i + 1, fadd tot lesion_score, dict_add vs vessel_key lesion_score,
                        cs @ [\<lparr>lesion_index = i + 1, contribution_vessel = vessel_key,
                               contribution_stenosis_percent = stenosis_percent lesion,
                               contribution_stenosis_score = sscore,
                               contribution_vessel_weight = w,
                               contribution = lesion_score\<rparr>])))"

record GensiniResult =
  gensini_total_score :: rat
  gensini_vessel_scores :: "(VesselType \<times> rat) list"
  lesion_contributions :: "GensiniContribution list"
  severity_grade :: string

definition GensiniCalculator_calculate :: "PatientData \<Rightarrow> py_error + GensiniResult" where
  "GensiniCalculator_calculate p =
     (if lesions p = [] then
        Inr \<lparr>gensini_total_score = 0.0, gensini_vessel_scores = [], lesion_contributions = [],
             severity_grade = ''normal''\<rparr>
      else
        (case gensini_loop (lesions p) (0, 0.0, [], []) of
           Inl e \<Rightarrow> Inl e
         | Inr (tot, vs, cs) \<Rightarrow>
             Inr \<lparr>gensini_total_score = py_round tot 2, gensini_vessel_scores = vs,
                  lesion_contributions = cs, severity_grade = get_severity_grade tot\<rparr>))"

subsection \<open>\<open>single_sheet_processor.py\<close>: \<open>calculate_gensini_score\<close>\<close>

definition gensini_weights :: "(string \<times> rat) list" where
  "gensini_weights =
     [(''LM'', 5.0), (''LAD'', 2.5), (''LCX'', 2.5), (''RCA'', 1.0),
      (''OM'', 1.0), (''D'', 1.0), (''PDA'', 1.0), (''PLV'', 0.5)]"

text \<open>
  \<open>vessel_weight\<close> after the location adjustment (lines 202-210):
  \<open>gensini_weights.get(vessel, 1.0)\<close>, times the float 0.8 for \<open>mid\<close>, times 0.5 for
  \<open>distal\<close>.
\<close>

definition gensini_vessel_weight :: "LesionDict \<Rightarrow> rat" where
  "gensini_vessel_weight lesion =
     (let vessel_weight = (case map_of gensini_weights (d_vessel lesion) of Some w \<Rightarrow> w | None \<Rightarrow> 1.0);
          loc = (case d_location lesion of Some x \<Rightarrow> x | None \<Rightarrow> ''proximal'')
      in if loc = ''mid'' then fmul vessel_weight (fl 0.8)
         else if loc = ''distal'' then fmul vessel_weight (fl 0.5)
         else vessel_weight)"

fun gensini_score_loop ::
  "LesionDict list \<Rightarrow> rat \<times> (string \<times> rat) list \<Rightarrow> rat \<times> (string \<times> rat) list" where
  "gensini_score_loop [] st = st"
| "gensini_score_loop (lesion # rest) (tot, vs) =
     (let lesion_score =
            fmul (of_int (gensini_lesion_stenosis_score (d_stenosis_percent lesion)))
              (gensini_vessel_weight lesion)
      in gensini_score_loop rest
           (fadd tot lesion_score, dict_add vs (d_vessel lesion) lesion_score))"

text \<open>The rounded total, the vessel scores and the category of \<open>calculate_gensini_score\<close>.\<close>

definition calculate_gensini_score :: "LesionDict list \<Rightarrow> rat \<times> (string \<times> rat) list \<times> string" where
  "calculate_gensini_score ls =
     (case gensini_score_loop ls (0, []) of
        (tot, vs) \<Rightarrow> (py_round tot 1, vs, get_severity_grade tot))"

section \<open>Text\<close>

text \<open>
  A Python \<open>str\<close> is a sequence of Unicode code points: \<open>len\<close> counts code points and
  \<open>in\<close> looks for a run of code points. Text is modelled as the list of its code points
  (the integers \<open>ord(c)\<close>);
  \<open>asc\<close> turns an ASCII literal into that form, and the Chinese words of the sources are
  written by their code points.
\<close>

type_synonym ustr = "int list"

definition asc :: "string \<Rightarrow> ustr" where
  "asc s = map of_char s"

text \<open>\<open>s.startswith(sub)\<close> and \<open>sub in s\<close>.\<close>

fun startswith :: "'a list \<Rightarrow> 'a list \<Rightarrow> bool" where
  "startswith s [] = True"
| "startswith [] (p # ps) = False"
| "startswith (c # s) (p # ps) = (c = p \<and> startswith s ps)"

fun py_in :: "'a list \<Rightarrow> 'a list \<Rightarrow> bool" where
  "py_in sub [] = (sub = [])"
| "py_in sub (c # s) = (startswith (c # s) sub \<or> py_in sub s)"

text \<open>\<open>any(k in s for k in keys)\<close>.\<close>

definition any_in :: "'a list list \<Rightarrow> 'a list \<Rightarrow> bool" where
  "any_in keys s = list_ex (\<lambda>k. py_in k s) keys"

text \<open>
  \<open>str.strip()\<close> removes the leading and trailing code points for which \<open>str.isspace\<close>
  holds.
\<close>

definition isspace :: "int \<Rightarrow> bool" where
  "isspace c \<longleftrightarrow>
     (0x09 \<le> c \<and> c \<le> 0x0D) \<or> (0x1C \<le> c \<and> c \<le> 0x20) \<or> c = 0x85 \<or> c = 0xA0
     \<or> c = 0x1680 \<or> (0x2000 \<le> c \<and> c \<le> 0x200A) \<or> c = 0x2028 \<or> c = 0x2029
     \<or> c = 0x202F \<or> c = 0x205F \<or> c = 0x3000"

definition strip :: "ustr \<Rightarrow> ustr" where
  "strip s = rev (dropWhile isspace (rev (dropWhile isspace s)))"

text \<open>
  \<open>str.lower()\<close> on ASCII letters; code points without case, such as the Chinese ones of
  the tables, are unchanged. Cased letters beyond ASCII, which Python also maps, occur in
  no table of the sources and are not modelled.
\<close>

definition lower :: "ustr \<Rightarrow> ustr" where
  "lower s = map (\<lambda>c. if 0x41 \<le> c \<and> c \<le> 0x5A then c + 0x20 else c) s"

text \<open>
  In a \<open>str\<close> pattern \<open>\d\<close> matches every Unicode decimal digit (category Nd), and
  \<open>float\<close> reads each of them by its digit value. The decimal digits come in blocks of
  ten consecutive code points, zero first; the blocks of Unicode 14 start at the code
  points below.
\<close>

definition decimal_digit_blocks :: "int list" where
  "decimal_digit_blocks =
     [0x30, 0x660, 0x6F0, 0x7C0, 0x966, 0x9E6, 0xA66, 0xAE6, 0xB66, 0xBE6, 0xC66, 0xCE6,
      0xD66, 0xDE6, 0xE50, 0xED0, 0xF20, 0x1040, 0x1090, 0x17E0, 0x1810, 0x1946, 0x19D0,
      0x1A80, 0x1A90, 0x1B50, 0x1BB0, 0x1C40, 0x1C50, 0xA620, 0xA8D0, 0xA900, 0xA9D0,
      0xA9F0, 0xAA50, 0xABF0, 0xFF10, 0x104A0, 0x10D30, 0x11066, 0x110F0, 0x11136,
      0x111D0, 0x112F0, 0x11450, 0x114D0, 0x11650, 0x116C0, 0x11730, 0x118E0, 0x11950,
      0x11C50, 0x11D50, 0x11DA0, 0x16A60, 0x16AC0, 0x16B50, 0x1D7CE, 0x1D7D8, 0x1D7E2,
      0x1D7EC, 0x1D7F6, 0x1E140, 0x1E2F0, 0x1E950, 0x1FBF0]"

fun digit_in_blocks :: "int list \<Rightarrow> int \<Rightarrow> int option" where
  "digit_in_blocks [] c = None"
| "digit_in_blocks (b # bs) c =
     (if b \<le> c \<and> c < b + 10 then Some (c - b) else digit_in_blocks bs c)"

definition digit_value :: "int \<Rightarrow> int option" where
  "digit_value c = digit_in_blocks decimal_digit_blocks c"

definition isdigit :: "int \<Rightarrow> bool" where
  "isdigit c \<longleftrightarrow> digit_value c \<noteq> None"

text \<open>
  One match of \<open>\d+\.?\d*\<close> at the start of \<open>s\<close>, which starts with a digit: the
  digits, a dot if one follows, the digits after it. Every part is greedy and none can
  fail, so there is no backtracking. The result is the match and the rest of the text.
\<close>

definition match_number :: "ustr \<Rightarrow> ustr \<times> ustr" where
  "match_number s =
     (let ds = takeWhile isdigit s; r1 = dropWhile isdigit s;
          dot = (case r1 of [] \<Rightarrow> [] | c # r \<Rightarrow> if c = 0x2E then [c] else []);
          r2 = drop (length dot) r1
      in (ds @ dot @ takeWhile isdigit r2, dropWhile isdigit r2))"

text \<open>
  \<open>re.findall(r"\d+\.?\d*", s)\<close>: the matches from left to right, the search resuming
  after each match.
\<close>

function findall_numbers :: "ustr \<Rightarrow> ustr list" where
  "findall_numbers [] = []"
| "findall_numbers (c # s) =
     (if isdigit c then fst (match_number (c # s)) # findall_numbers (snd (match_number (c # s)))
      else findall_numbers s)"
  by pat_completeness auto
termination
proof (relation "measure length")
  show "wf (measure length)"
    by simp
next
  fix c :: int and s :: ustr
  assume d: "isdigit c"
  have "length (dropWhile isdigit (drop n r)) \<le> length r" for n and r :: ustr
    using length_dropWhile_le [of isdigit "drop n r"] by simp
  then have "length (snd (match_number (c # s))) \<le> length (dropWhile isdigit (c # s))"
    by (simp add: match_number_def Let_def)
  also have "\<dots> \<le> length s"
    using d length_dropWhile_le [of isdigit s] by simp
  finally show "(snd (match_number (c # s)), c # s) \<in> measure length"
    by simp
next
  fix c :: int and s :: ustr
  show "(s, c # s) \<in> measure length"
    by simp
qed

text \<open>
  \<open>float(n)\<close> for a match \<open>n\<close>: the decimal value of the digits before and after the
  dot, exact in the rationals.
\<close>

definition digits_value :: "ustr \<Rightarrow> int" where
  "digits_value ds =
     fold (\<lambda>c n. 10 * n + (case digit_value c of Some d \<Rightarrow> d | None \<Rightarrow> 0)) ds 0"

definition float_of_match :: "ustr \<Rightarrow> rat" where
  "float_of_match n =
     (let ip = takeWhile isdigit n; fp = drop (length ip + 1) n
      in of_int (digits_value ip) + of_int (digits_value fp) / 10 ^ length fp)"

text \<open>
  The value of a table cell: a text, a whole number, or a missing value (\<open>NaN\<close> or
  \<open>None\<close>, for which \<open>pd.isna\<close> holds). Cells that hold a float are not modelled.
  \<open>py_str\<close> is \<open>str(value)\<close>, which is the text \<open>nan\<close> for the float \<open>NaN\<close>.
\<close>

datatype cell = CStr ustr | CInt int | CNaN

function str_of_nat :: "nat \<Rightarrow> ustr" where
  "str_of_nat n =
     (if n < 10 then [0x30 + int n] else str_of_nat (n div 10) @ [0x30 + int (n mod 10)])"
  by pat_completeness auto
termination
  by (relation "measure id") auto

declare str_of_nat.simps [simp del]

definition py_str :: "cell \<Rightarrow> ustr" where
  "py_str x =
     (case x of
        CStr s \<Rightarrow> s
      | CInt i \<Rightarrow> (if i < 0 then asc ''-'' @ str_of_nat (nat (- i)) else str_of_nat (nat i))
      | CNaN \<Rightarrow> asc ''nan'')"

definition isna :: "cell \<Rightarrow> bool" where
  "isna x \<longleftrightarrow> x = CNaN"

section \<open>Stenosis text: \<open>run_scoring_with_dialog.py\<close>\<close>

text \<open>
  The Chinese words of the module, by code point:
  stenosis U+72ED U+7A84; occlusion U+95ED U+585E; blockage U+5835 U+585E;
  obstruction U+963B U+585E; lesion U+75C5 U+53D8; myocardial bridge U+808C U+6865;
  normal U+6B63 U+5E38; "no stenosis seen" U+672A U+89C1 + stenosis;
  "no stenosis" U+65E0 + stenosis; "complete occlusion" U+5B8C U+5168 + occlusion;
  severe U+91CD U+5EA6; serious U+4E25 U+91CD; moderate U+4E2D U+5EA6; mild U+8F7B U+5EA6;
  "to" U+81F3; em dash U+2014; fullwidth hyphen-minus U+FF0D.
\<close>

definition zh_stenosis :: ustr where "zh_stenosis = [0x72ED, 0x7A84]"
definition zh_occlusion :: ustr where "zh_occlusion = [0x95ED, 0x585E]"
definition zh_blockage :: ustr where "zh_blockage = [0x5835, 0x585E]"
definition zh_obstruction :: ustr where "zh_obstruction = [0x963B, 0x585E]"
definition zh_lesion :: ustr where "zh_lesion = [0x75C5, 0x53D8]"
definition zh_myocardial_bridge :: ustr where "zh_myocardial_bridge = [0x808C, 0x6865]"
definition zh_normal :: ustr where "zh_normal = [0x6B63, 0x5E38]"
definition zh_no_stenosis_seen :: ustr where "zh_no_stenosis_seen = [0x672A, 0x89C1, 0x72ED, 0x7A84]"
definition zh_no_stenosis :: ustr where "zh_no_stenosis = [0x65E0, 0x72ED, 0x7A84]"
definition zh_complete_occlusion :: ustr where "zh_complete_occlusion = [0x5B8C, 0x5168, 0x95ED, 0x585E]"
definition zh_severe :: ustr where "zh_severe = [0x91CD, 0x5EA6]"
definition zh_serious :: ustr where "zh_serious = [0x4E25, 0x91CD]"
definition zh_moderate :: ustr where "zh_moderate = [0x4E2D, 0x5EA6]"
definition zh_mild :: ustr where "zh_mild = [0x8F7B, 0x5EA6]"

definition STENOSIS_KEYWORDS :: "ustr list" where
  "STENOSIS_KEYWORDS =
     [zh_stenosis, zh_occlusion, zh_blockage, zh_obstruction, zh_lesion,
      zh_myocardial_bridge, zh_normal, zh_no_stenosis_seen, zh_no_stenosis]"

text \<open>
  \<open>extract_stenosis_percent(text, use_range_upper)\<close>; the result \<open>None\<close> is Python's
  \<open>None\<close>. The checks are in the order of the source: the gate, the negative markers,
  the occlusion markers, the severity adjectives, and the numbers last.
\<close>

definition extract_stenosis_percent :: "cell \<Rightarrow> bool \<Rightarrow> rat option" where
  "extract_stenosis_percent text use_range_upper =
     (if isna text then None
      else
          (let s = strip (py_str text);
               has_percent = py_in (asc ''%'') s;
               has_keyword = any_in STENOSIS_KEYWORDS s
           in if s = [] then None
              else if \<not> has_percent \<and> \<not> has_keyword then None
              else if any_in [zh_no_stenosis, zh_normal, zh_no_stenosis_seen] s then Some 0.0
              else if any_in [zh_complete_occlusion, zh_occlusion, asc ''100%'', asc ''CTO''] s
                then Some 100.0
              else if py_in zh_severe s \<or> py_in zh_serious s then Some 90.0
              else if py_in zh_moderate s then Some 70.0
              else if py_in zh_mild s then Some 50.0
              else
                (let numbers = findall_numbers s
                 in if numbers = [] then None
                    else
                      (let values = map float_of_match numbers
                       in if use_range_upper
                             \<and> any_in [asc ''-'', asc ''~'', [0x81F3], [0x2014], [0xFF0D]] s
                          then py_max values
                          else py_max values))))"

section \<open>Merging the scores: \<open>run_scoring_with_dialog.py\<close>\<close>

text \<open>The dataclass \<open>AggregatedScores\<close>.\<close>

record AggregatedScores =
  patient_id :: ustr
  syntax_score :: rat
  syntax_class :: ustr
  cad_rads_grade :: rat
  gensini_score :: rat
  gensini_class :: ustr

text \<open>
  A lesion dictionary as \<open>aggregate_scores\<close> receives it. The function reads the keys
  \<open>patient_id\<close>, \<open>age\<close> and \<open>gender\<close> and hands the dictionaries of one patient to the
  calculator.
\<close>

record LesionRow =
  lr_patient_id :: ustr
  lr_age :: cell
  lr_gender :: ustr
  lr_vessel :: string
  lr_location :: string
  lr_stenosis_percent :: rat

text \<open>
  \<open>aggregate_scores\<close> imports its calculator from the module
  \<open>single_sheet_processor_v2\<close>, which is not among the sources. The three methods it
  calls are parameters here: each takes the lesions of one patient; the SYNTAX and Gensini
  methods give \<open>total_score\<close> and \<open>risk_category\<close>, the CAD-RADS method gives \<open>grade\<close>.
\<close>

record ScoreCalculator =
  calc_syntax_score :: "LesionRow list \<Rightarrow> rat \<times> ustr"
  calc_cad_rads_grade :: "LesionRow list \<Rightarrow> rat"
  calc_gensini_score :: "LesionRow list \<Rightarrow> rat \<times> ustr"

text \<open>
  \<open>str.title()\<close> on ASCII text: a letter is upper case after a character that is not a
  letter and at the start, lower case after a letter.
\<close>

definition title :: "ustr \<Rightarrow> ustr" where
  "title s =
     snd (fold (\<lambda>c (after_letter, out).
                  (let up = (0x41 \<le> c \<and> c \<le> 0x5A); lo = (0x61 \<le> c \<and> c \<le> 0x7A)
                   in (up \<or> lo,
                       out @ [if lo \<and> \<not> after_letter then c - 0x20
                              else if up \<and> after_letter then c + 0x20 else c])))
               s (False, []))"

text \<open>
  \<open>aggregate_scores\<close>: the lesions are grouped by patient identifier in a dictionary,
  so the patients come in the order of their first lesion, and one record is built for
  each key.
\<close>

definition aggregate_scores :: "ScoreCalculator \<Rightarrow> LesionRow list \<Rightarrow> AggregatedScores list" where
  "aggregate_scores calculator ls =
     map (\<lambda>pid.
            (let patient_lesions = filter (\<lambda>l. lr_patient_id l = pid) ls;
                 syntax_result = calc_syntax_score calculator patient_lesions;
                 cad_result = calc_cad_rads_grade calculator patient_lesions;
                 gensini_result = calc_gensini_score calculator patient_lesions
             in \<lparr>patient_id = pid,
                 syntax_score = fst syntax_result, syntax_class = title (snd syntax_result),
                 cad_rads_grade = cad_result,
                 gensini_score = fst gensini_result, gensini_class = title (snd gensini_result)\<rparr>))
         (dict_keys (map lr_patient_id ls))"

text \<open>
  The input table: its column labels in order, and its rows, each giving the cell of a
  label. The labels of a table are taken to be distinct; pandas allows a label to occur
  twice, and such tables are not modelled.
\<close>

type_synonym sheet_row = "ustr \<Rightarrow> cell"

record DataFrame =
  df_columns :: "ustr list"
  df_rows :: "sheet_row list"

text \<open>
  The columns of \<open>agg_df\<close>: the key \<open>patient_id\<close> and the five score columns.
\<close>

definition SCORE_COLUMNS :: "ustr list" where
  "SCORE_COLUMNS =
     [asc ''SYNTAX_score'', asc ''SYNTAX_class'', asc ''CAD_RADS_grade'',
      asc ''Gensini_score'', asc ''Gensini_class'']"

definition agg_df_columns :: "ustr list" where
  "agg_df_columns = asc ''patient_id'' # SCORE_COLUMNS"

text \<open>The values of the five score columns in one row of \<open>agg_df\<close>.\<close>

record ScoreColumns =
  SYNTAX_score :: rat
  SYNTAX_class :: ustr
  CAD_RADS_grade :: rat
  Gensini_score :: rat
  Gensini_class :: ustr

definition score_columns :: "AggregatedScores \<Rightarrow> ScoreColumns" where
  "score_columns v =
     \<lparr>SYNTAX_score = syntax_score v, SYNTAX_class = syntax_class v,
      CAD_RADS_grade = cad_rads_grade v, Gensini_score = gensini_score v,
      Gensini_class = gensini_class v\<rparr>"

text \<open>
  \<open>DataFrame.merge\<close> gives a label that occurs in both tables the suffix \<open>_x\<close> in the
  left table and \<open>_y\<close> in the right table.
\<close>

definition left_label :: "ustr \<Rightarrow> ustr" where
  "left_label l = (if l \<in> set agg_df_columns then l @ asc ''_x'' else l)"

definition right_label :: "ustr list \<Rightarrow> ustr \<Rightarrow> ustr" where
  "right_label left_columns l = (if l \<in> set left_columns then l @ asc ''_y'' else l)"

text \<open>
  \<open>DataFrame.merge(..., how="left")\<close> on one key column, as pandas documents it: the
  rows of the left table in their order, each one once for every row of the right table
  with an equal key, in the order of the right table, and once with missing values on the
  right when no key is equal. The key of a right row is \<open>patient_id\<close>, a text that the
  cast \<open>astype(str)\<close> leaves as it is.
\<close>

definition merge_left ::
  "sheet_row list \<Rightarrow> ustr \<Rightarrow> AggregatedScores list
     \<Rightarrow> (sheet_row \<times> AggregatedScores option) list" where
  "merge_left left_rows left_on right_rows =
     concat (map (\<lambda>r. case filter (\<lambda>v. CStr (patient_id v) = r left_on) right_rows of
                         [] \<Rightarrow> [(r, None)]
                       | ms \<Rightarrow> map (\<lambda>v. (r, Some v)) ms)
                 left_rows)"

text \<open>
  The table that \<open>merge_scores\<close> returns: the labels of the columns that come from the
  input table and of the five appended columns, and for each row the cells under the
  former and the values under the latter, which are all missing (\<open>None\<close>) or all present.
\<close>

record MergedRow =
  merged_cells :: "cell list"
  merged_scores :: "ScoreColumns option"

record MergedFrame =
  m_columns :: "ustr list"
  m_score_columns :: "ustr list"
  m_rows :: "MergedRow list"

text \<open>
  \<open>merge_scores(df, agg)\<close>; \<open>agg\<close> is given by \<open>agg.values()\<close> in order, the keys of the
  dictionary are not read. What \<open>astype(str)\<close> makes of a cell of the \<open>subjid\<close> column
  depends on the type of the column and on the pandas version (a missing value becomes the
  text \<open>nan\<close> before pandas 3 and stays missing from pandas 3 on), so the cast is the
  parameter \<open>astype_str\<close>.

  \<^item> \<open>df["subjid"]\<close> raises \<open>KeyError\<close> when the table has no such column.
  \<^item> The merge renames the labels that both tables have; when a renamed label of the
    input table meets another of its labels, pandas 2 and later raise \<open>MergeError\<close>.
  \<^item> \<open>drop(columns=["patient_id"])\<close> raises \<open>KeyError\<close> when the input table had a
    column \<open>patient_id\<close>, because both columns of that name have been renamed.
\<close>

definition merge_scores ::
  "(cell \<Rightarrow> cell) \<Rightarrow> DataFrame \<Rightarrow> AggregatedScores list \<Rightarrow> py_error + MergedFrame" where
  "merge_scores astype_str df agg =
     (if asc ''subjid'' \<notin> set (df_columns df) then Inl KeyError
      else
        (let rows = map (\<lambda>r. r(asc ''subjid'' := astype_str (r (asc ''subjid'')))) (df_rows df);
             merged = merge_left rows (asc ''subjid'') agg
         in if \<not> distinct (map left_label (df_columns df)) then Inl MergeError
            else if asc ''patient_id'' \<in> set (df_columns df) then Inl KeyError
            else
              Inr \<lparr>m_columns = map left_label (df_columns df),
                   m_score_columns = map (right_label (df_columns df)) SCORE_COLUMNS,
                   m_rows =
                     map (\<lambda>(r, v). \<lparr>merged_cells = map r (df_columns df),
                                     merged_scores = map_option score_columns v\<rparr>)
                         merged\<rparr>))"

text \<open>
  The cast of a column of whole numbers or of texts without a missing value: \<open>str\<close> of
  each element.
\<close>

definition str_of_cell :: "cell \<Rightarrow> cell" where
  "str_of_cell c = CStr (py_str c)"

section \<open>Column names: \<open>IntelligentExcelConverter.analyze_columns\<close>\<close>

text \<open>
  \<open>self.field_mapping\<close>: each canonical field with its known column names, in the
  dictionary's order; the Chinese names by code point.
\<close>

definition field_mapping :: "(string \<times> ustr list) list" where
  "field_mapping =
     [(''patient_id'',
       [asc ''patient_id'', asc ''patientid'', asc ''id'', [0x60A3, 0x8005] @ asc ''id'',
        [0x60A3, 0x8005] @ asc ''ID'', [0x75C5, 0x4F8B, 0x53F7], [0x4F4F, 0x9662, 0x53F7],
        [0x95E8, 0x8BCA, 0x53F7], [0x75C5, 0x5386, 0x53F7], [0x7F16, 0x53F7],
        asc ''case_id'', asc ''caseid'', asc ''number'', asc ''no'', [0x5E8F, 0x53F7]]),
      (''age'',
       [asc ''age'', [0x5E74, 0x9F84], asc ''years'', asc ''yr'', asc ''years_old'',
        [0x5C81]]),
      (''gender'',
       [asc ''gender'', asc ''sex'', [0x6027, 0x522B], [0x7537, 0x5973],
        asc ''male_female'', asc ''gender_mf'']),
      (''vessel'',
       [asc ''vessel'', asc ''artery'', [0x8840, 0x7BA1], [0x75C5, 0x53D8, 0x8840, 0x7BA1],
        [0x9776, 0x8840, 0x7BA1], [0x7F6A, 0x72AF, 0x8840, 0x7BA1],
        [0x4E3B, 0x8981, 0x75C5, 0x53D8, 0x8840, 0x7BA1], asc ''target_vessel'',
        asc ''culprit_vessel'', asc ''main_vessel'', [0x8840, 0x7BA1, 0x540D, 0x79F0]]),
      (''stenosis_percent'',
       [asc ''stenosis'', asc ''stenosis_percent'', [0x72ED, 0x7A84],
        [0x72ED, 0x7A84, 0x5EA6], [0x72ED, 0x7A84, 0x767E, 0x5206, 0x6BD4],
        [0x72ED, 0x7A84, 0x7A0B, 0x5EA6], asc ''narrowing'', asc ''occlusion'',
        [0x963B, 0x585E], [0x5835, 0x585E], asc ''blockage'', [0x72ED, 0x7A84, 0x7387],
        asc ''%'']),
      (''location'',
       [asc ''location'', asc ''position'', [0x4F4D, 0x7F6E], [0x90E8, 0x4F4D],
        [0x8282, 0x6BB5], [0x6BB5], asc ''segment'', [0x75C5, 0x53D8, 0x4F4D, 0x7F6E],
        [0x72ED, 0x7A84, 0x4F4D, 0x7F6E], asc ''lesion_location'']),
      (''diabetes'',
       [asc ''diabetes'', asc ''dm'', [0x7CD6, 0x5C3F, 0x75C5], asc ''diabetic'',
        [0x8840, 0x7CD6], asc ''glucose'']),
      (''hypertension'',
       [asc ''hypertension'', asc ''htn'', asc ''bp'', [0x9AD8, 0x8840, 0x538B],
        [0x8840, 0x538B], asc ''blood_pressure'']),
      (''hyperlipidemia'',
       [asc ''hyperlipidemia'', asc ''lipid'', [0x9AD8, 0x8102, 0x8840, 0x75C7],
        [0x8840, 0x8102], [0x80C6, 0x56FA, 0x9187], asc ''cholesterol'']),
      (''smoking'',
       [asc ''smoking'', asc ''smoke'', [0x5438, 0x70DF], [0x70DF, 0x8349],
        asc ''tobacco'', [0x62BD, 0x70DF]]),
      (''ejection_fraction'',
       [asc ''ef'', asc ''ejection_fraction'', asc ''lvef'',
        [0x5C04, 0x8840, 0x5206, 0x6570], [0x5DE6, 0x5BA4, 0x5C04, 0x8840, 0x5206, 0x6570],
        asc ''ejection'', asc ''fraction'', [0x5FC3, 0x529F, 0x80FD]]),
      (''creatinine_mg_dl'',
       [asc ''creatinine'', asc ''cr'', asc ''scr'', [0x808C, 0x9150],
        [0x8840, 0x808C, 0x9150], [0x8840, 0x6E05, 0x808C, 0x9150], asc ''creat'']),
      (''length_mm'',
       [asc ''length'', asc ''lesion_length'', [0x957F, 0x5EA6],
        [0x75C5, 0x53D8, 0x957F, 0x5EA6], [0x72ED, 0x7A84, 0x957F, 0x5EA6], asc ''mm'',
        asc ''millimeter'']),
      (''is_bifurcation'',
       [asc ''bifurcation'', [0x5206, 0x53C9], [0x5206, 0x5C94], asc ''branch'',
        [0x5206, 0x652F], asc ''bifur'']),
      (''is_calcified'',
       [asc ''calcified'', asc ''calcium'', asc ''calc'', [0x9499, 0x5316],
        [0x9499, 0x8D28], asc ''ca'']),
      (''is_ostial'',
       [asc ''ostial'', asc ''ostium'', [0x5F00, 0x53E3], [0x8D77, 0x59CB],
        [0x5165, 0x53E3], asc ''mouth'']),
      (''is_tortuous'',
       [asc ''tortuous'', asc ''tortuosity'', [0x8FC2, 0x66F2], [0x626D, 0x66F2],
        [0x5F2F, 0x66F2], asc ''curved'', asc ''winding'']),
      (''is_cto'',
       [asc ''cto'', asc ''occlusion'', [0x5B8C, 0x5168, 0x95ED, 0x585E],
        [0x6162, 0x6027, 0x95ED, 0x585E], [0x95ED, 0x585E], asc ''total_occlusion'',
        asc ''chronic_occlusion'', asc ''100%'']),
      (''thrombus_present'',
       [asc ''thrombus'', asc ''clot'', [0x8840, 0x6813], [0x8840, 0x51DD, 0x5757],
        asc ''thrombosis''])]"

text \<open>
  The innermost loop, over the known names of one field for one column \<open>col\<close>. The state
  is \<open>best_match\<close> and \<open>best_score\<close>. An exact match sets the score to 100 and breaks;
  a containment in either direction scores
  \<open>len(possible_clean) / max(len(col_clean), 1) * 80\<close> and replaces the best match when
  the score is larger.
\<close>

fun possible_names_loop ::
  "ustr list \<Rightarrow> ustr \<Rightarrow> ustr \<Rightarrow> ustr option \<times> rat \<Rightarrow> ustr option \<times> rat" where
  "possible_names_loop [] col col_clean st = st"
| "possible_names_loop (possible_name # rest) col col_clean (best_match, best_score) =
     (let possible_clean = strip (lower possible_name)
      in if col_clean = possible_clean then (Some col, 100)
         else if py_in possible_clean col_clean \<or> py_in col_clean possible_clean then
           (let score = of_nat (length possible_clean) / of_nat (max (length col_clean) 1) * 80
            in if best_score < score
               then possible_names_loop rest col col_clean (Some col, score)
               else possible_names_loop rest col col_clean (best_match, best_score))
         else possible_names_loop rest col col_clean (best_match, best_score))"

text \<open>
  The loop over the available columns for one field; \<open>mapped\<close> are the values of
  \<open>column_mapping\<close> so far, and a column among them is skipped.
\<close>

fun columns_loop ::
  "ustr list \<Rightarrow> ustr list \<Rightarrow> ustr list \<Rightarrow> ustr option \<times> rat \<Rightarrow> ustr option \<times> rat" where
  "columns_loop [] mapped possible_names st = st"
| "columns_loop (col # cols) mapped possible_names st =
     (if col \<in> set mapped then columns_loop cols mapped possible_names st
      else columns_loop cols mapped possible_names
             (possible_names_loop possible_names col (strip (lower col)) st))"

text \<open>
  The loop over the fields. \<open>if best_match and best_score > 50\<close>: a best match that is
  \<open>None\<close> or the empty string is not mapped.
\<close>

fun fields_loop ::
  "(string \<times> ustr list) list \<Rightarrow> ustr list \<Rightarrow> (string \<times> ustr) list \<Rightarrow> (string \<times> ustr) list" where
  "fields_loop [] available_columns column_mapping = column_mapping"
| "fields_loop ((standard_field, possible_names) # rest) available_columns column_mapping =
     (case columns_loop available_columns (map snd column_mapping) possible_names (None, 0) of
        (Some best_match, best_score) \<Rightarrow>
          (if best_match \<noteq> [] \<and> 50 < best_score
           then fields_loop rest available_columns (column_mapping @ [(standard_field, best_match)])
           else fields_loop rest available_columns column_mapping)
      | (None, best_score) \<Rightarrow> fields_loop rest available_columns column_mapping)"

text \<open>
  \<open>analyze_columns\<close> on the column names of the table; the result is \<open>column_mapping\<close>
  in insertion order, field first.
\<close>

definition analyze_columns :: "ustr list \<Rightarrow> (string \<times> ustr) list" where
  "analyze_columns columns = fields_loop field_mapping (map strip columns) []"

section \<open>Theorems\<close>

lemma stenosis_to_grade_on_whole_percent:
  assumes "0 \<le> i" "i \<le> 100"
  shows "stenosis_to_grade (of_int i) =
           (if i = 0 then 0 else if i < 25 then 1 else if i < 50 then 2
            else if i < 70 then 3 else if i < 100 then 4 else 5)"
  using assms by (simp add: stenosis_to_grade_def CADRADS_GRADES_def)

lemma cad_rads_lesion_grade_on_whole_percent:
  assumes "0 \<le> i" "i \<le> 100"
  shows "cad_rads_lesion_grade (of_int i) =
           (if i = 0 then 0 else if i < 25 then 1 else if i < 50 then 2
            else if i < 70 then 3 else if i < 100 then 4 else 5)"
proof -
  have "(of_int i :: rat) \<le> of_int k \<longleftrightarrow> i \<le> k" for k by simp
  from this [of 24] this [of 49] this [of 69] this [of 99]
  show ?thesis using assms by (simp add: cad_rads_lesion_grade_def)
qed

text \<open>
  C1. The claim reads: for every stenosis \<open>s\<close> in \<open>[0, 100]\<close> the grade is 0 at 0, 1 on
  \<open>(0, 25)\<close>, 2 on \<open>[25, 50)\<close>, 3 on \<open>[50, 70)\<close>, 4 on \<open>[70, 100)\<close>, 5 at 100, and the
  grade never decreases when the stenosis grows. On whole percentages both calculators do
  this (the two lemmas above). \<open>stenosis_percent\<close> is a float, and at 24.5 the table of
  \<open>_stenosis_to_grade\<close> has a gap between the ranges \<open>(1, 24)\<close> and \<open>(25, 49)\<close>: the loop
  falls through and returns grade 0, below the grade 1 of 24, where the claim gives
  grade 1. The same happens at 99.5 (grade 0 after grade 4 at 99). The chain of
  \<open>calculate_cad_rads_grade\<close> has no gap and stays monotone, but puts 24.5 in grade 2.
\<close>

theorem C1_stenosis_to_grade_gap:
  "stenosis_to_grade 24 = 1 \<and> stenosis_to_grade (49 / 2) = 0 \<and> stenosis_to_grade 25 = 2
   \<and> stenosis_to_grade 99 = 4 \<and> stenosis_to_grade (199 / 2) = 0
   \<and> cad_rads_lesion_grade (49 / 2) = 2"
  by (simp add: stenosis_to_grade_def CADRADS_GRADES_def cad_rads_lesion_grade_def)

text \<open>
  C2. For every stenosis \<open>s\<close> in \<open>[0, 100]\<close> the Gensini stenosis score is 1 on \<open>(0, 25]\<close>,
  2 on \<open>(25, 50]\<close>, 4 on \<open>(50, 75]\<close>, 8 on \<open>(75, 90]\<close>, 16 on \<open>(90, 99]\<close>, 32 on
  \<open>(99, 100]\<close> and 0 at \<open>s = 0\<close>, in the package calculator and in the single-sheet
  calculator; so the score is 1 at 25, 2 at 25.01, 32 at 100 and 0 at 0.
\<close>

theorem C2_gensini_stenosis_score:
  assumes "0 \<le> s" "s \<le> 100"
  shows "get_stenosis_score s =
           (if s = 0 then 0 else if s \<le> 25 then 1 else if s \<le> 50 then 2
            else if s \<le> 75 then 4 else if s \<le> 90 then 8 else if s \<le> 99 then 16 else 32)
         \<and> gensini_lesion_stenosis_score s = get_stenosis_score s"
  using assms
  by (auto simp add: get_stenosis_score_def gensini_lesion_stenosis_score_def STENOSIS_SCORES_def)

theorem C2_gensini_stenosis_score_witness:
  "get_stenosis_score 25 = 1 \<and> get_stenosis_score (2501 / 100) = 2
   \<and> get_stenosis_score 100 = 32 \<and> get_stenosis_score 0 = 0
   \<and> gensini_lesion_stenosis_score (2501 / 100) = 2"
  using C2_gensini_stenosis_score [of 25] C2_gensini_stenosis_score [of "2501 / 100"]
    C2_gensini_stenosis_score [of 100] C2_gensini_stenosis_score [of 0]
  by simp


subsection \<open>Reading \<open>.value\<close>\<close>


lemma get_base_score_error:
  assumes "get_base_score l = Inl e"
  shows "e = AttributeError"
  using assms
  by (cases "vessel l")
    (auto simp add: get_base_score_def get_base_weight_def get_segment_id_def
      infer_segment_id_def value_of_def split: option.splits if_splits sum.splits)

lemma anatomical_score_loop_error:
  assumes "anatomical_score_loop ls acc = Inl e"
  shows "e = AttributeError"
  using assms
proof (induction ls arbitrary: acc)
  case Nil
  then show ?case by simp
next
  case (Cons l ls)
  then show ?case
    by (auto simp add: Let_def split: if_splits sum.splits dest: get_base_score_error)
qed

lemma SyntaxCalculator_calculate_raises:
  assumes "lesions p \<noteq> []"
  shows "SyntaxCalculator_calculate p = Inl AttributeError"
proof (cases "calculate_anatomical_score (lesions p)")
  case (Inl e)
  then have "e = AttributeError"
    by (auto simp add: calculate_anatomical_score_def split: sum.splits
        dest: anatomical_score_loop_error)
  with Inl assms show ?thesis
    by (simp add: SyntaxCalculator_calculate_def)
next
  case (Inr a)
  with assms show ?thesis
    by (simp add: SyntaxCalculator_calculate_def calculate_clinical_score_def value_of_def
        Let_def)
qed

lemma get_vessel_weight_of_segment:
  assumes "segment_id l = Some i" and "i \<noteq> 0" and "map_of GENSINI_WEIGHTS i = Some w"
  shows "get_vessel_weight l = Inr w"
  using assms by (simp add: get_vessel_weight_def)

lemma get_vessel_weight_raises:
  assumes "segment_id l = None \<or> segment_id l = Some 0
           \<or> (\<exists>i. segment_id l = Some i \<and> map_of GENSINI_WEIGHTS i = None)"
  shows "get_vessel_weight l = Inl AttributeError"
  using assms by (auto simp add: get_vessel_weight_def value_of_def Let_def)

lemma GensiniCalculator_calculate_raises:
  assumes "lesions p \<noteq> []"
  shows "GensiniCalculator_calculate p = Inl AttributeError"
proof -
  from assms obtain l ls where ls: "lesions p = l # ls"
    by (cases "lesions p") auto
  have "gensini_loop (l # ls) st = Inl AttributeError" for st
    by (cases st) (auto simp add: value_of_def Let_def get_vessel_weight_def split: sum.splits option.splits)
  with ls show ?thesis
    by (simp add: GensiniCalculator_calculate_def del: gensini_loop.simps)
qed

lemma CadRadsCalculator_calculate_raises:
  assumes "lesions p \<noteq> []"
  shows "CadRadsCalculator_calculate p = Inl AttributeError"
proof -
  from assms obtain l ls where ls: "lesions p = l # ls"
    by (cases "lesions p") auto
  have "calculate_vessel_grades (l # ls) = Inl AttributeError"
    by (simp add: calculate_vessel_grades_def value_of_def)
  with ls show ?thesis
    by (simp add: CadRadsCalculator_calculate_def)
qed

subsection \<open>SYNTAX total\<close>

lemma anatomical_score_loop_skips_below_50:
  assumes "stenosis_percent l < 50"
  shows "anatomical_score_loop (xs @ l # ys) acc = anatomical_score_loop (xs @ ys) acc"
  using assms by (induction xs arbitrary: acc) (simp_all add: Let_def split: sum.splits)

lemma syntax_score_loop_skips_below_50:
  assumes "d_stenosis_percent d < 50"
  shows "syntax_score_loop (us @ d # vs) st = syntax_score_loop (us @ vs) st"
  using assms by (induction us arbitrary: st) (auto simp add: Let_def)

lemma syntax_score_loop_total:
  "fst (syntax_score_loop ls (acc, ds)) =
     fold (\<lambda>l t. fadd t (syntax_lesion_score l))
       (filter (\<lambda>l. 50 \<le> d_stenosis_percent l) ls) acc"
  by (induction ls arbitrary: acc ds) (simp_all add: not_less [symmetric] Let_def)

text \<open>
  C3. The claim reads: the SYNTAX total is the sum of the contributions of exactly the
  lesions with a stenosis of at least 50. Both loops do skip the lesions below 50 and add
  the others (the lemmas above), yet the total that comes back is not that sum. Take the
  patient of \<open>test_single_simple_lesion\<close>: age 65, male, one lesion, LAD proximal, 75
  percent, no segment id, no feature; the test expects the total \<open>3.5 * 1.5 = 5.25\<close>.

  \<^item> \<open>SyntaxCalculator.calculate\<close> raises \<open>AttributeError\<close>: \<open>_get_segment_id\<close> reads
    \<open>lesion.location.value\<close> on a string. With the segment id 6 given,
    \<open>_calculate_anatomical_score\<close> returns and \<open>calculate\<close> still raises, at
    \<open>patient_data.gender.value\<close>.
  \<^item> Where a total is returned it is rounded to one decimal:
    \<open>_calculate_anatomical_score\<close> with segment id 6 and \<open>calculate_syntax_score\<close> of the
    single-sheet calculator both return \<open>round(5.25, 1)\<close>, the float 5.2 (the binary64
    number \<open>5854679515581645 / 2 ^ 50\<close>), for the one contribution 5.25.
\<close>

theorem C3_single_simple_lesion_total:
  "SyntaxCalculator_calculate
     \<lparr>age = 65, gender = MALE, diabetes = False, hypertension = False,
      creatinine_mg_dl = None, ejection_fraction = None,
      lesions =
        [\<lparr>vessel = LAD, segment_id = None, stenosis_percent = 75, location = PROXIMAL,
          length_mm = None, is_bifurcation = False, is_ostial = False, is_calcified = False,
          is_tortuous = False, is_cto = False, thrombus_present = False\<rparr>]\<rparr>
     = Inl AttributeError
   \<and> calculate_anatomical_score
       [\<lparr>vessel = LAD, segment_id = None, stenosis_percent = 75, location = PROXIMAL,
         length_mm = None, is_bifurcation = False, is_ostial = False, is_calcified = False,
         is_tortuous = False, is_cto = False, thrombus_present = False\<rparr>]
     = Inl AttributeError
   \<and> get_base_score
       \<lparr>vessel = LAD, segment_id = Some 6, stenosis_percent = 75, location = PROXIMAL,
        length_mm = None, is_bifurcation = False, is_ostial = False, is_calcified = False,
        is_tortuous = False, is_cto = False, thrombus_present = False\<rparr>
     = Inr (21 / 4)
   \<and> calculate_anatomical_score
       [\<lparr>vessel = LAD, segment_id = Some 6, stenosis_percent = 75, location = PROXIMAL,
         length_mm = None, is_bifurcation = False, is_ostial = False, is_calcified = False,
         is_tortuous = False, is_cto = False, thrombus_present = False\<rparr>]
     = Inr (5854679515581645 / 2 ^ 50)
   \<and> SyntaxCalculator_calculate
     \<lparr>age = 65, gender = MALE, diabetes = False, hypertension = False,
      creatinine_mg_dl = None, ejection_fraction = None,
      lesions =
        [\<lparr>vessel = LAD, segment_id = Some 6, stenosis_percent = 75, location = PROXIMAL,
          length_mm = None, is_bifurcation = False, is_ostial = False, is_calcified = False,
          is_tortuous = False, is_cto = False, thrombus_present = False\<rparr>]\<rparr>
     = Inl AttributeError
   \<and> syntax_lesion_score
       \<lparr>d_vessel = ''LAD'', d_stenosis_percent = 75, d_location = Some ''proximal'',
        d_length_mm = None, d_is_bifurcation = False, d_is_ostial = False,
        d_is_calcified = False, d_is_tortuous = False, d_is_cto = False,
        d_thrombus_present = False\<rparr>
     = 21 / 4
   \<and> fst (calculate_syntax_score
       [\<lparr>d_vessel = ''LAD'', d_stenosis_percent = 75, d_location = Some ''proximal'',
         d_length_mm = None, d_is_bifurcation = False, d_is_ostial = False,
         d_is_calcified = False, d_is_tortuous = False, d_is_cto = False,
         d_thrombus_present = False\<rparr>])
     = 5854679515581645 / 2 ^ 50
   \<and> fl (26 / 5) = 5854679515581645 / 2 ^ 50
   \<and> (5854679515581645 / 2 ^ 50 :: rat) < 21 / 4"
  by code_simp

subsection \<open>SYNTAX base weight\<close>




subsection \<open>Gensini vessel weight\<close>

lemma gensini_vessel_weight_by_location:
  "gensini_vessel_weight d =
     (let w = (if d_vessel d = ''LM'' then 5
               else if d_vessel d = ''LAD'' \<or> d_vessel d = ''LCX'' then 5 / 2
               else if d_vessel d = ''PLV'' then 1 / 2 else 1)
      in if d_location d = Some ''mid'' then fmul w (fl (4 / 5))
         else if d_location d = Some ''distal'' then fmul w (fl (1 / 2))
         else w)"
  by (cases "d_location d") (auto simp add: gensini_vessel_weight_def gensini_weights_def Let_def)

text \<open>
  C5. The claim reads: the Gensini vessel weight is the weight of the vessel times 1.0,
  0.8 or 0.5 for a proximal, mid or distal lesion, unless the segment id gives a weight.
  Take a lesion on the mid LAD, 75 percent, without segment id: the claim gives
  \<open>2.5 * 0.8 = 2.0\<close>.

  \<^item> \<open>GensiniCalculator._get_vessel_weight\<close> returns no weight for it: it reads
    \<open>lesion.location.value\<close> on a string and raises \<open>AttributeError\<close>, and so does
    \<open>calculate\<close>. This holds for every lesion whose segment id is missing, 0 or not one
    of 1 to 16 (lemma \<open>get_vessel_weight_raises\<close>).
  \<^item> With the segment id 7 the weight is 1.5, from the segment table, as the claim says;
    \<open>calculate\<close> then raises at \<open>lesion.vessel.value\<close>.
  \<^item> The single-sheet calculator returns \<open>2.5 * 0.8 = 2.0\<close> for the lesion, as the claim
    says.
\<close>

theorem C5_mid_lad_without_segment_id:
  "get_vessel_weight
     \<lparr>vessel = LAD, segment_id = None, stenosis_percent = 75, location = MID,
      length_mm = None, is_bifurcation = False, is_ostial = False, is_calcified = False,
      is_tortuous = False, is_cto = False, thrombus_present = False\<rparr> = Inl AttributeError
   \<and> GensiniCalculator_calculate
     \<lparr>age = 65, gender = MALE, diabetes = False, hypertension = False,
      creatinine_mg_dl = None, ejection_fraction = None,
      lesions =
        [\<lparr>vessel = LAD, segment_id = None, stenosis_percent = 75, location = MID,
          length_mm = None, is_bifurcation = False, is_ostial = False, is_calcified = False,
          is_tortuous = False, is_cto = False, thrombus_present = False\<rparr>]\<rparr>
     = Inl AttributeError
   \<and> get_vessel_weight
     \<lparr>vessel = LAD, segment_id = Some 7, stenosis_percent = 75, location = MID,
      length_mm = None, is_bifurcation = False, is_ostial = False, is_calcified = False,
      is_tortuous = False, is_cto = False, thrombus_present = False\<rparr> = Inr (3 / 2)
   \<and> GensiniCalculator_calculate
     \<lparr>age = 65, gender = MALE, diabetes = False, hypertension = False,
      creatinine_mg_dl = None, ejection_fraction = None,
      lesions =
        [\<lparr>vessel = LAD, segment_id = Some 7, stenosis_percent = 75, location = MID,
          length_mm = None, is_bifurcation = False, is_ostial = False, is_calcified = False,
          is_tortuous = False, is_cto = False, thrombus_present = False\<rparr>]\<rparr>
     = Inl AttributeError
   \<and> gensini_vessel_weight
     \<lparr>d_vessel = ''LAD'', d_stenosis_percent = 75, d_location = Some ''mid'',
      d_length_mm = None, d_is_bifurcation = False, d_is_ostial = False,
      d_is_calcified = False, d_is_tortuous = False, d_is_cto = False,
      d_thrombus_present = False\<rparr> = 2"
  by code_simp

subsection \<open>Patients without lesions\<close>

text \<open>
  C10. For a patient whose lesion list is empty, \<open>SyntaxCalculator.calculate\<close> returns
  total score 0.0 and risk category \<open>low\<close>, \<open>GensiniCalculator.calculate\<close> returns total
  score 0.0 and severity grade \<open>normal\<close>, and \<open>CadRadsCalculator.calculate\<close> returns
  overall grade 0, maximal stenosis 0 and no dominant vessel. Each of the three returns
  its result and none raises: no \<open>.value\<close> is read on this path.
\<close>

theorem C10_no_lesions:
  assumes "lesions p = []"
  shows "SyntaxCalculator_calculate p =
           Inr \<lparr>total_score = 0, anatomical_score = 0, clinical_score = 0,
                syntax_ii_score = 0, risk_category = ''low''\<rparr>
       \<and> GensiniCalculator_calculate p =
           Inr \<lparr>gensini_total_score = 0, gensini_vessel_scores = [],
                lesion_contributions = [], severity_grade = ''normal''\<rparr>
       \<and> CadRadsCalculator_calculate p =
           Inr \<lparr>overall_grade = 0, max_stenosis = 0, vessel_grades = [],
                dominant_vessel = None, recommendation = 0, follow_up = 0\<rparr>"
  using assms
  by (simp add: SyntaxCalculator_calculate_def GensiniCalculator_calculate_def
      CadRadsCalculator_calculate_def)

theorem C10_no_lesions_witness:
  "SyntaxCalculator_calculate
      \<lparr>age = 65, gender = MALE, diabetes = True, hypertension = False,
       creatinine_mg_dl = None, ejection_fraction = Some 40, lesions = []\<rparr> =
     Inr \<lparr>total_score = 0, anatomical_score = 0, clinical_score = 0,
          syntax_ii_score = 0, risk_category = ''low''\<rparr>
   \<and> GensiniCalculator_calculate
      \<lparr>age = 65, gender = MALE, diabetes = True, hypertension = False,
       creatinine_mg_dl = None, ejection_fraction = Some 40, lesions = []\<rparr> =
     Inr \<lparr>gensini_total_score = 0, gensini_vessel_scores = [],
          lesion_contributions = [], severity_grade = ''normal''\<rparr>
   \<and> CadRadsCalculator_calculate
      \<lparr>age = 65, gender = MALE, diabetes = True, hypertension = False,
       creatinine_mg_dl = None, ejection_fraction = Some 40, lesions = []\<rparr> =
     Inr \<lparr>overall_grade = 0, max_stenosis = 0, vessel_grades = [],
          dominant_vessel = None, recommendation = 0, follow_up = 0\<rparr>"
  using C10_no_lesions [of
      "\<lparr>age = 65, gender = MALE, diabetes = True, hypertension = False,
        creatinine_mg_dl = None, ejection_fraction = Some 40, lesions = []\<rparr>"]
  by simp

subsection \<open>Stenosis text\<close>

lemma startswith_prefix: "startswith s p \<longleftrightarrow> prefix p s"
  by (induction s p rule: startswith.induct) auto

lemma py_in_sublist: "py_in sub s \<longleftrightarrow> sublist sub s"
  by (induction s) (auto simp add: startswith_prefix sublist_Cons_right)

lemma strip_sublist: "sublist (strip s) s"
  unfolding strip_def
  by (metis sublist_dropWhile sublist_rev_right sublist_order.dual_order.trans)

lemma py_in_strip: "py_in k (strip t) \<Longrightarrow> py_in k t"
  by (metis py_in_sublist strip_sublist sublist_order.dual_order.trans)

lemma any_in_strip: "any_in keys (strip t) \<Longrightarrow> any_in keys t"
  by (auto simp add: any_in_def list_ex_iff dest: py_in_strip)

lemma extract_gate:
  assumes "\<not> py_in (asc ''%'') t" and "\<not> any_in STENOSIS_KEYWORDS t"
  shows "extract_stenosis_percent (CStr t) u = None"
proof -
  from assms have "\<not> py_in (asc ''%'') (strip t)" and "\<not> any_in STENOSIS_KEYWORDS (strip t)"
    using py_in_strip any_in_strip by blast+
  then show ?thesis
    by (simp add: extract_stenosis_percent_def Let_def isna_def py_str_def)
qed

text \<open>
  C7. The claim reads: a cell text with neither a percent sign nor any of the nine
  keywords yields no stenosis value, contributes no lesion, is no error and does not
  abort the processing of its row. The first part holds of \<open>extract_stenosis_percent\<close>
  as it is written, and is the theorem. The rest is about \<open>iter_lesions\<close>, and that
  function is not valid Python: in \<open>run_scoring_with_dialog.py\<close> the \<open>try:\<close> of line 146
  has the body of lines 147 to 151, and line 153, the \<open>for\<close> over the segment columns,
  stands at the indentation of the \<open>try\<close> with no \<open>except\<close> or \<open>finally\<close> before it.
  Compiling the module fails with \<open>SyntaxError\<close>, so no row of any table is processed.
\<close>

theorem C7_text_without_marker_yields_no_value:
  assumes "\<not> py_in (asc ''%'') t" and "\<not> any_in STENOSIS_KEYWORDS t"
  shows "extract_stenosis_percent (CStr t) u = None"
  using assms by (rule extract_gate)

theorem C7_text_without_marker_yields_no_value_witness:
  "\<not> py_in (asc ''%'') (asc ''50-60'') \<and> \<not> any_in STENOSIS_KEYWORDS (asc ''50-60'')
   \<and> extract_stenosis_percent (CStr (asc ''50-60'')) True = None"
proof -
  have a: "\<not> py_in (asc ''%'') (asc ''50-60'')" "\<not> any_in STENOSIS_KEYWORDS (asc ''50-60'')"
    by (simp_all add: asc_def any_in_def STENOSIS_KEYWORDS_def zh_stenosis_def zh_occlusion_def
        zh_blockage_def zh_obstruction_def zh_lesion_def zh_myocardial_bridge_def zh_normal_def
        zh_no_stenosis_seen_def zh_no_stenosis_def)
  show ?thesis
    using C7_text_without_marker_yields_no_value [OF a, of True] a by simp
qed

lemma extract_numbers_without_adjective:
  assumes "strip t \<noteq> []"
    and "py_in (asc ''%'') (strip t) \<or> any_in STENOSIS_KEYWORDS (strip t)"
    and "\<not> any_in [zh_no_stenosis, zh_normal, zh_no_stenosis_seen] (strip t)"
    and "\<not> any_in [zh_complete_occlusion, zh_occlusion, asc ''100%'', asc ''CTO''] (strip t)"
    and "\<not> any_in [zh_severe, zh_serious, zh_moderate, zh_mild] (strip t)"
  shows "extract_stenosis_percent (CStr t) u =
           py_max (map float_of_match (findall_numbers (strip t)))"
  using assms by (auto simp add: extract_stenosis_percent_def Let_def any_in_def isna_def py_str_def)

text \<open>
  C6. The claim reads: for a text that passes the gate and has neither a negative nor an
  occlusion marker, the numbers decide whenever there is one, and the severity adjectives
  only when there is none. The text "severe stenosis 80%" (U+91CD U+5EA6 U+72ED U+7A84,
  then \<open>80%\<close>) passes the gate, has no negative and no occlusion marker and holds the one
  number 80; the function tests the adjectives before it looks for numbers and returns
  90. Likewise "mild stenosis 30%" gives 50.
\<close>

theorem C6_adjective_before_number:
  "any_in STENOSIS_KEYWORDS (zh_severe @ zh_stenosis @ asc ''80%'')
   \<and> \<not> any_in [zh_no_stenosis, zh_normal, zh_no_stenosis_seen] (zh_severe @ zh_stenosis @ asc ''80%'')
   \<and> \<not> any_in [zh_complete_occlusion, zh_occlusion, asc ''100%'', asc ''CTO'']
        (zh_severe @ zh_stenosis @ asc ''80%'')
   \<and> map float_of_match (findall_numbers (zh_severe @ zh_stenosis @ asc ''80%'')) = [80]
   \<and> extract_stenosis_percent (CStr (zh_severe @ zh_stenosis @ asc ''80%'')) True = Some 90
   \<and> extract_stenosis_percent (CStr (zh_mild @ zh_stenosis @ asc ''30%'')) True = Some 50
   \<and> extract_stenosis_percent (CStr (zh_stenosis @ asc ''80%'')) True = Some 80"
  by code_simp

subsection \<open>Column names\<close>

lemma possible_names_loop_match:
  "fst (possible_names_loop ns col col_clean st) = fst st
   \<or> fst (possible_names_loop ns col col_clean st) = Some col"
proof (induction ns arbitrary: st)
  case Nil
  show ?case by simp
next
  case (Cons n ns)
  obtain bm bs where st: "st = (bm, bs)"
    by (cases st) auto
  show ?case
    using Cons [of "(bm, bs)"]
      Cons [of "(Some col, of_nat (length (strip (lower n))) / of_nat (max (length col_clean) 1) * 80)"]
    unfolding st by (simp add: Let_def)
qed

lemma columns_loop_match:
  "fst (columns_loop cols mapped ns st) = fst st
   \<or> (\<exists>col. fst (columns_loop cols mapped ns st) = Some col \<and> col \<in> set cols \<and> col \<notin> set mapped)"
proof (induction cols arbitrary: st)
  case Nil
  show ?case by simp
next
  case (Cons c cols)
  show ?case
  proof (cases "c \<in> set mapped")
    case True
    with Cons [of st] show ?thesis by auto
  next
    case False
    with Cons [of "possible_names_loop ns c (strip (lower c)) st"]
      possible_names_loop_match [of ns c "strip (lower c)" st]
    show ?thesis by auto
  qed
qed

lemma fields_loop_distinct:
  "distinct (map snd m) \<Longrightarrow> distinct (map snd (fields_loop fs cols m))"
proof (induction fs arbitrary: m)
  case Nil
  then show ?case by simp
next
  case (Cons f fs)
  obtain field ns where f: "f = (field, ns)"
    by (cases f) auto
  obtain bm bs where r: "columns_loop cols (map snd m) ns (None, 0) = (bm, bs)"
    by (cases "columns_loop cols (map snd m) ns (None, 0)") auto
  show ?case
  proof (cases bm)
    case None
    with Cons r show ?thesis
      unfolding f by simp
  next
    case (Some col)
    with columns_loop_match [of cols "map snd m" ns "(None, 0)"] r
    have "col \<notin> set (map snd m)"
      by auto
    with Cons.prems have "distinct (map snd (m @ [(field, col)]))"
      by simp
    with Cons r Some show ?thesis
      unfolding f by simp
  qed
qed

lemma analyze_columns_distinct: "distinct (map snd (analyze_columns columns))"
  by (simp add: analyze_columns_def fields_loop_distinct)

text \<open>
  C8. The claim reads: an exact match scores 100, a containment scores the length of the
  shorter text over the length of the longer one times 80, and the highest-scoring unused
  column is taken when its score exceeds 50. The function always divides the length of the
  known name by the length of the column name, so a column name that is shorter than a
  known name containing it scores above 80, and above 100 when it is short enough. For the
  columns \<open>ID\<close>, \<open>Age\<close>, \<open>Sex\<close>, \<open>CA\<close> the field \<open>patient_id\<close> finds \<open>ID\<close> with an exact
  match (score 100) and then takes \<open>CA\<close> instead, since \<open>ca\<close> is contained in
  \<open>case_id\<close> and scores \<open>7 / 2 * 80 = 280\<close> where the claim gives \<open>2 / 7 * 80\<close>;
  later \<open>ID\<close> is mapped to \<open>hyperlipidemia\<close> with the score 560. Each column is still
  mapped at most once (\<open>analyze_columns_distinct\<close>).
\<close>

theorem C8_short_column_outscores_exact_match:
  "columns_loop [asc ''ID''] [] (snd (field_mapping ! 0)) (None, 0) = (Some (asc ''ID''), 100)
   \<and> columns_loop [asc ''CA''] [] (snd (field_mapping ! 0)) (None, 0) = (Some (asc ''CA''), 280)
   \<and> columns_loop [asc ''ID'', asc ''Age'', asc ''Sex'', asc ''CA''] [] (snd (field_mapping ! 0))
        (None, 0) = (Some (asc ''CA''), 280)
   \<and> analyze_columns [asc ''ID'', asc ''Age'', asc ''Sex'', asc ''CA''] =
        [(''patient_id'', asc ''CA''), (''age'', asc ''Age''), (''gender'', asc ''Sex''),
         (''hyperlipidemia'', asc ''ID'')]"
  by code_simp

subsection \<open>Merging the scores\<close>

lemma filter_distinct_key:
  assumes "distinct (map f xs)"
  shows "filter (\<lambda>v. f v = k) xs = (case find (\<lambda>v. f v = k) xs of None \<Rightarrow> [] | Some v \<Rightarrow> [v])"
  using assms
proof (induction xs)
  case Nil
  show ?case by simp
next
  case (Cons x xs)
  show ?case
  proof (cases "f x = k")
    case True
    with Cons.prems have "\<forall>v \<in> set xs. f v \<noteq> k"
      by (auto simp add: image_iff)
    then have "filter (\<lambda>v. f v = k) xs = []"
      by (simp add: filter_empty_conv)
    with True show ?thesis by simp
  next
    case False
    with Cons show ?thesis by simp
  qed
qed

lemma merge_left_rows:
  assumes "distinct (map patient_id agg)"
  shows "merge_left rows k agg =
           map (\<lambda>r. (r, find (\<lambda>v. CStr (patient_id v) = r k) agg)) rows"
proof -
  have d: "distinct (map (\<lambda>v. CStr (patient_id v)) agg)"
    using assms by (simp add: distinct_map inj_on_def)
  have one: "concat (map (\<lambda>r. [g r]) rs) = map g rs"
    for g :: "sheet_row \<Rightarrow> sheet_row \<times> AggregatedScores option" and rs
    by (induction rs) simp_all
  have "merge_left rows k agg =
          concat (map (\<lambda>r. [(r, find (\<lambda>v. CStr (patient_id v) = r k) agg)]) rows)"
    unfolding merge_left_def
    by (rule arg_cong [where f = concat], rule map_cong [OF refl])
      (simp add: filter_distinct_key [OF d] split: option.split)
  then show ?thesis
    by (simp only: one)
qed

lemma left_label_unchanged:
  assumes "set cols \<inter> set agg_df_columns = {}"
  shows "map left_label cols = cols"
  using assms by (induction cols) (auto simp add: left_label_def)

lemma right_label_unchanged:
  assumes "set cols \<inter> set agg_df_columns = {}"
  shows "map (right_label cols) SCORE_COLUMNS = SCORE_COLUMNS"
proof -
  have "right_label cols l = l" if "l \<in> set SCORE_COLUMNS" for l
    using that assms by (auto simp add: right_label_def agg_df_columns_def)
  then show ?thesis
    by (simp add: map_idI)
qed

lemma dict_keys_distinct: "distinct (dict_keys ks)"
  by (induction ks) simp_all

lemma aggregate_scores_one_record_per_patient:
  "distinct (map patient_id (aggregate_scores calculator ls))"
proof -
  have "map patient_id (aggregate_scores calculator ls) = dict_keys (map lr_patient_id ls)"
    by (simp add: aggregate_scores_def Let_def comp_def)
  then show ?thesis
    by (simp add: dict_keys_distinct)
qed

text \<open>
  C9, as stated: for every input table the output has exactly the input rows and every
  original column keeps its values unchanged. A table with the columns \<open>subjid\<close> and
  \<open>note\<close> whose identifier column holds the whole number 7 comes back with the text \<open>7\<close>
  in that column: \<open>merge_scores\<close> casts the column \<open>subjid\<close> of its copy to text before
  the join and returns the copy. And a table that has a column \<open>patient_id\<close> of its own
  comes back not at all: the merge renames both columns of that name, and
  \<open>drop(columns=["patient_id"])\<close> raises \<open>KeyError\<close>.
\<close>

theorem C9_merge_counterexample:
  "map ((\<lambda>c. CNaN)(asc ''subjid'' := CInt 7, asc ''note'' := CStr (asc ''a'')))
     [asc ''subjid'', asc ''note''] = [CInt 7, CStr (asc ''a'')]
   \<and> merge_scores str_of_cell
       \<lparr>df_columns = [asc ''subjid'', asc ''note''],
        df_rows = [(\<lambda>c. CNaN)(asc ''subjid'' := CInt 7, asc ''note'' := CStr (asc ''a''))]\<rparr>
       [\<lparr>patient_id = asc ''7'', syntax_score = 5.5, syntax_class = asc ''Low'',
         cad_rads_grade = 4, gensini_score = 10, gensini_class = asc ''Mild''\<rparr>]
     = Inr \<lparr>m_columns = [asc ''subjid'', asc ''note''],
            m_score_columns = SCORE_COLUMNS,
            m_rows = [\<lparr>merged_cells = [CStr (asc ''7''), CStr (asc ''a'')],
                       merged_scores =
                         Some \<lparr>SYNTAX_score = 5.5, SYNTAX_class = asc ''Low'',
                               CAD_RADS_grade = 4, Gensini_score = 10,
                               Gensini_class = asc ''Mild''\<rparr>\<rparr>]\<rparr>
   \<and> merge_scores str_of_cell
       \<lparr>df_columns = [asc ''subjid'', asc ''patient_id''],
        df_rows = [(\<lambda>c. CNaN)(asc ''subjid'' := CInt 7, asc ''patient_id'' := CInt 7)]\<rparr>
       []
     = Inl KeyError"
  by code_simp

text \<open>
  C9, amended. Let the input table have distinct column labels, a column \<open>subjid\<close> and no
  column named \<open>patient_id\<close>, \<open>SYNTAX_score\<close>, \<open>SYNTAX_class\<close>, \<open>CAD_RADS_grade\<close>,
  \<open>Gensini_score\<close> or \<open>Gensini_class\<close>, and let the score records have distinct patient
  identifiers, as those of \<open>aggregate_scores\<close> have. Then \<open>merge_scores\<close> returns a table
  with the columns of the input followed by the five score columns and with exactly the
  rows of the input, in order, none dropped and none repeated. In each row every original
  column other than \<open>subjid\<close> keeps its value, and \<open>subjid\<close> holds what the cast
  \<open>astype(str)\<close> makes of its value; the score columns hold the values of the record
  whose identifier equals that cast value, and are missing when there is no such record.
\<close>

theorem C9_merge_is_left_join:
  assumes "asc ''subjid'' \<in> set (df_columns df)"
    and "distinct (df_columns df)"
    and "set (df_columns df) \<inter> set agg_df_columns = {}"
    and "distinct (map patient_id agg)"
  shows "merge_scores astype_str df agg =
           Inr \<lparr>m_columns = df_columns df,
                m_score_columns = SCORE_COLUMNS,
                m_rows =
                  map (\<lambda>r. \<lparr>merged_cells =
                               map (\<lambda>c. if c = asc ''subjid'' then astype_str (r c) else r c)
                                 (df_columns df),
                             merged_scores =
                               map_option score_columns
                                 (find (\<lambda>v. CStr (patient_id v) = astype_str (r (asc ''subjid'')))
                                    agg)\<rparr>)
                      (df_rows df)\<rparr>"
proof -
  have no_key: "asc ''patient_id'' \<notin> set (df_columns df)"
    using assms(3) by (auto simp add: agg_df_columns_def)
  have cells: "map (r(asc ''subjid'' := x)) (df_columns df) =
               map (\<lambda>c. if c = asc ''subjid'' then x else r c) (df_columns df)" for r :: sheet_row and x
    by (rule map_cong [OF refl]) simp
  show ?thesis
    using assms(1,2) no_key
    by (simp add: merge_scores_def Let_def left_label_unchanged [OF assms(3)]
        right_label_unchanged [OF assms(3)] merge_left_rows [OF assms(4)] comp_def cells)
qed

theorem C9_merge_is_left_join_witness:
  "merge_scores str_of_cell
      \<lparr>df_columns = [asc ''subjid'', asc ''note''],
       df_rows = [(\<lambda>c. CNaN)(asc ''subjid'' := CStr (asc ''P1''), asc ''note'' := CInt 3),
                  (\<lambda>c. CNaN)(asc ''subjid'' := CStr (asc ''P2''))]\<rparr>
      [\<lparr>patient_id = asc ''P1'', syntax_score = 5.5, syntax_class = asc ''Low'',
        cad_rads_grade = 4, gensini_score = 10, gensini_class = asc ''Mild''\<rparr>]
   = Inr \<lparr>m_columns = [asc ''subjid'', asc ''note''],
          m_score_columns = SCORE_COLUMNS,
          m_rows =
            [\<lparr>merged_cells = [CStr (asc ''P1''), CInt 3],
              merged_scores =
                Some \<lparr>SYNTAX_score = 5.5, SYNTAX_class = asc ''Low'', CAD_RADS_grade = 4,
                      Gensini_score = 10, Gensini_class = asc ''Mild''\<rparr>\<rparr>,
             \<lparr>merged_cells = [CStr (asc ''P2''), CNaN], merged_scores = None\<rparr>]\<rparr>"
proof -
  let ?df = "\<lparr>df_columns = [asc ''subjid'', asc ''note''],
       df_rows = [(\<lambda>c. CNaN)(asc ''subjid'' := CStr (asc ''P1''), asc ''note'' := CInt 3),
                  (\<lambda>c. CNaN)(asc ''subjid'' := CStr (asc ''P2''))]\<rparr>"
  let ?v = "\<lparr>patient_id = asc ''P1'', syntax_score = 5.5, syntax_class = asc ''Low'',
        cad_rads_grade = 4, gensini_score = 10, gensini_class = asc ''Mild''\<rparr>"
  have a: "asc ''subjid'' \<in> set (df_columns ?df)"
    by simp
  have b: "distinct (df_columns ?df)"
    by (simp add: asc_def)
  have c: "set (df_columns ?df) \<inter> set agg_df_columns = {}"
    by (simp add: agg_df_columns_def SCORE_COLUMNS_def asc_def)
  have d: "distinct (map patient_id [?v])"
    by simp
  show ?thesis
    using C9_merge_is_left_join [OF a b c d, of str_of_cell]
    by (simp add: str_of_cell_def py_str_def score_columns_def asc_def)
qed

end
